theory Spec2Isabelle
  imports Main
begin

section \<open>Paths, as \<open>std::filesystem::path\<close> decomposes them on a POSIX host\<close>

text \<open>
  The parser stores every path in a \<open>std::filesystem::path\<close> and only ever builds one from
  a \<open>std::string\<close> and reads it back with \<open>string()\<close>; neither conversion changes the
  characters on a POSIX host, so a path is modelled as its pathname string.  The
  decomposition functions below follow the generic pathname format of C++17 with \<open>/\<close> as the
  only separator and no root name.
\<close>

type_synonym path = string

definition is_sep :: "char \<Rightarrow> bool" where
  "is_sep c = (c = CHR ''/'')"

definition is_dot :: "char \<Rightarrow> bool" where
  "is_dot c = (c = CHR ''.'')"

text \<open>\<open>filename()\<close>: what follows the last separator (empty after a trailing separator).\<close>

definition filename :: "path \<Rightarrow> path" where
  "filename p = rev (takeWhile (\<lambda>c. \<not> is_sep c) (rev p))"

text \<open>
  \<open>parent_path()\<close>: the path itself when it has no relative part (it is empty or made of
  separators only); otherwise the pathname up to the end of the last-but-one element, which
  is empty for a lone file name and the root directory for a file name directly under the
  root.
\<close>

definition parent_path :: "path \<Rightarrow> path" where
  "parent_path p =
     (if \<forall>c \<in> set p. is_sep c then p
      else let r1 = dropWhile (\<lambda>c. \<not> is_sep c) (rev p);
               r2 = dropWhile is_sep r1
           in if r1 = [] then []
              else if r2 = [] then ''/''
              else rev r2)"

text \<open>
  \<open>extension()\<close>: the suffix of the file name from its last period on, unless the file name
  is \<open>.\<close> or \<open>..\<close>, has no period, or has its only period in front.
\<close>

definition extension :: "path \<Rightarrow> string" where
  "extension p =
     (let f = filename p;
          e = rev (takeWhile (\<lambda>c. \<not> is_dot c) (rev f))
      in if f = ''.'' \<or> f = ''..'' then []
         else if length e = length f then []
         else if Suc (length e) = length f then []
         else CHR ''.'' # e)"

definition has_extension :: "path \<Rightarrow> bool" where
  "has_extension p = (extension p \<noteq> [])"

definition stem :: "path \<Rightarrow> string" where
  "stem p = (let f = filename p in take (length f - length (extension p)) f)"

text \<open>
  \<open>replace_extension(r)\<close>: the extension is removed from the pathname, a period is appended
  when \<open>r\<close> is not empty and does not start with one, then \<open>r\<close> is appended.
\<close>

definition replace_extension :: "path \<Rightarrow> string \<Rightarrow> path" where
  "replace_extension p r =
     take (length p - length (extension p)) p
       @ (if r \<noteq> [] \<and> \<not> is_dot (hd r) then ''.'' else [])
       @ r"

text \<open>
  \<open>operator/\<close>: an absolute right operand replaces the left one; otherwise a separator is
  put between them when the left operand ends in a file name.
\<close>

definition path_append :: "path \<Rightarrow> path \<Rightarrow> path" where
  "path_append p q =
     (if q \<noteq> [] \<and> is_sep (hd q) then q
      else if p \<noteq> [] \<and> \<not> is_sep (last p) then p @ ''/'' @ q
      else p @ q)"

text \<open>
  The file system is what the three queries of the parser see: \<open>is_directory\<close>, \<open>exists\<close>
  and \<open>current_path\<close>.  The headers call the overloads without an \<open>error_code\<close>
  argument, which throw \<open>std::filesystem::filesystem_error\<close> when the operating system
  refuses the query (a name that is too long, a directory that may not be searched); a path
  that is simply not there is answered with \<open>false\<close>.  A query is therefore a partial
  answer: \<open>None\<close> where it throws.
\<close>

record filesystem =
  is_directory :: "path \<Rightarrow> bool option"
  exists :: "path \<Rightarrow> bool option"
  current_path :: "path option"

section \<open>Strings\<close>

text \<open>\<open>std::tolower\<close> on an \<open>unsigned char\<close> in the C locale: only \<open>A\<close> to \<open>Z\<close> change.\<close>

definition tolower_char :: "char \<Rightarrow> char" where
  "tolower_char c =
     (let n = (of_char c :: nat) in if 65 \<le> n \<and> n \<le> 90 then char_of (n + 32) else c)"

definition tolower :: "string \<Rightarrow> string" where
  "tolower txt = map tolower_char txt"

definition getExtension :: "path \<Rightarrow> string" where
  "getExtension file =
     (let ext = tolower (extension file)
      in if ext \<noteq> [] \<and> hd ext = CHR ''.'' then tl ext else ext)"

definition nl :: string where
  "nl = [CHR 0x0A]"

fun join :: "string list \<Rightarrow> string \<Rightarrow> string" where
  "join [] delim = []"
| "join [x] delim = x"
| "join (x # y # v) delim = x @ delim @ join (y # v) delim"

section \<open>Flags, configuration and state\<close>

text \<open>
  The four flag objects of the header.  \<open>cmd_flags\<close> is a vector of pointers to them, so a
  registry is a list of flag identities, and \<open>contains(cmd_flags, &help)\<close> is membership.
\<close>

datatype flag_id = Convert | Translate | Help | Version

fun name :: "flag_id \<Rightarrow> string" where
  "name Convert = ''convert''"
| "name Translate = ''translate''"
| "name Help = ''help''"
| "name Version = ''version''"

text \<open>
  The set-up section of the header: the extension lists, the registry and the version text.
  The header ships demo values and asks for them to be adapted, so they are a parameter;
  \<open>demo\<close> holds the values as shipped.
\<close>

record config =
  source_ext :: "string list"
  target_ext :: "string list"
  cmd_flags :: "flag_id list"
  text_version :: string

definition demo :: config where
  "demo = \<lparr> source_ext = [''txt'', ''csv'', ''json''],
            target_ext = [''csv'', ''json'', ''txt''],
            cmd_flags = [Convert, Translate, Help, Version],
            text_version = ''MyProgram version: 1.0.0'' \<rparr>"

definition defaultTargetExt :: "config \<Rightarrow> string" where
  "defaultTargetExt cfg = (if target_ext cfg = [] then [] else hd (target_ext cfg))"

text \<open>
  The state a call of \<open>CmdArgumentParser::parse\<close> reads and writes: the published paths
  \<open>cmd::source\<close> and \<open>cmd::target\<close>, the \<open>on\<close> member of every flag object, the members
  \<open>_source\<close> and \<open>_target\<close> of the parser object, and the lines written to the two streams.
\<close>

record state =
  cmd_source :: path
  cmd_target :: path
  flag_on :: "flag_id \<Rightarrow> bool"
  m_source :: path
  m_target :: path
  cout :: "string list"
  cerr :: "string list"

text \<open>
  A call ends in one of three ways: it returns a boolean, it ends the process through
  \<open>exit\<close>, or it leaves through an exception that nothing in the header catches: the
  \<open>std::runtime_error\<close> of \<open>check\<close>, with its message, or the \<open>filesystem_error\<close> of a
  file-system query.
\<close>

datatype exception = Runtime_error string | Filesystem_error

datatype outcome = Returned bool | Exited int | Threw exception

text \<open>
  How a block of statements inside \<open>parseFiles\<close> ends: control passes on to the next
  statement, the block returns \<open>err\<close> of a message, or a query in it throws.
\<close>

datatype block_end = Passed | Failed string | Raised

definition err :: "string \<Rightarrow> state \<Rightarrow> outcome \<times> state" where
  "err msg s = (Returned False, s\<lparr>cerr := cerr s @ [''Error: '' @ msg]\<rparr>)"

definition info :: "string \<Rightarrow> int \<Rightarrow> state \<Rightarrow> outcome \<times> state" where
  "info msg code s = (Exited code, s\<lparr>cout := cout s @ [msg]\<rparr>)"

definition set_flag :: "flag_id \<Rightarrow> bool \<Rightarrow> state \<Rightarrow> state" where
  "set_flag f b s = s\<lparr>flag_on := (flag_on s)(f := b)\<rparr>"

section \<open>Flag resolution (the same in both headers)\<close>

definition matches :: "string \<Rightarrow> flag_id \<Rightarrow> bool" where
  "matches flag f = (flag = ''-'' @ name f \<or> flag = ''--'' @ name f)"

text \<open>
  The two nested loops of \<open>parseFlags\<close>: the result is the unknown token at which the loop
  returned, if any, with \<open>countFlags\<close> and the state at that point.
\<close>

fun flags_loop :: "flag_id list \<Rightarrow> string list \<Rightarrow> nat \<Rightarrow> state \<Rightarrow> string option \<times> nat \<times> state" where
  "flags_loop reg [] countFlags s = (None, countFlags, s)"
| "flags_loop reg (flag # rest) countFlags s =
     (case find (matches flag) reg of
        None \<Rightarrow> (Some flag, countFlags, s)
      | Some f \<Rightarrow> flags_loop reg rest (Suc countFlags) (set_flag f True s))"

definition parseFlags :: "string \<Rightarrow> config \<Rightarrow> string list \<Rightarrow> nat \<Rightarrow> state \<Rightarrow> outcome \<times> state" where
  "parseFlags text_help cfg flags countFiles s =
     (case flags_loop (cmd_flags cfg) flags 0 s of
        (Some bad, countFlags, s') \<Rightarrow> err (''argument: Unknown flag '' @ bad) s'
      | (None, countFlags, s') \<Rightarrow>
          if flag_on s' Help \<or> flag_on s' Version then
            if countFlags > 1 \<or> countFiles \<noteq> 0 then err ''argument: Too many arguments'' s'
            else if flag_on s' Help then info text_help 0 s'
            else info (text_version cfg) 0 s'
          else (Returned True, s'))"

section \<open>The header \<open>CmdArgs.h\<close>\<close>

text \<open>
  Definitions with the suffix \<open>_A\<close> follow \<open>src/CmdArgs.h\<close>.  Its flag objects carry no
  default of their own: \<open>initial_on_A\<close> is the value each one is constructed with, and
  \<open>check\<close> writes the defaults out by hand.

  The repository holds two more versions of this header, both in \<open>src/unnamed/part_001\<close>.
  The first of them is modelled in the next section.  The second, an earlier one written
  for C++20 with six flags in a \<open>std::array\<close>, resolves files as \<open>CmdArgs.h\<close> does, but
  prints its errors on the standard output and leaves through \<open>exit(1)\<close> when \<open>help\<close> or
  \<open>version\<close> comes with other arguments; it is not modelled.
\<close>

fun initial_on_A :: "flag_id \<Rightarrow> bool" where
  "initial_on_A Convert = True"
| "initial_on_A Translate = True"
| "initial_on_A Help = False"
| "initial_on_A Version = False"

definition text_help_A :: "config \<Rightarrow> string" where
  "text_help_A cfg =
     ''Usage: MyProgram [options] <source_file> [target_file]'' @ nl
     @ nl
     @ ''Options:'' @ nl
     @ ''  -convert       Convert the source file to the target format (default)'' @ nl
     @ ''  -translate     Enable translation (default)'' @ nl
     @ ''  -help          Show this help message'' @ nl
     @ ''  -version       Show version information'' @ nl
     @ nl
     @ ''File extensions:'' @ nl
     @ ''  Source: '' @ join (source_ext cfg) '', '' @ nl
     @ ''  Target: '' @ join (target_ext cfg) '', '' @ nl
     @ nl
     @ ''Notes:'' @ nl
     @ ''  If target_file is omitted, output defaults to source name with the default target extension.'' @ nl"

text \<open>\<open>check\<close>: the result is the message of the exception thrown, if any.\<close>

definition check_A :: "config \<Rightarrow> state \<Rightarrow> string option \<times> state" where
  "check_A cfg s =
     (let s1 = s\<lparr>cmd_source := [], cmd_target := []\<rparr>;
          s2 = fold (\<lambda>f. set_flag f False) (cmd_flags cfg) s1;
          s3 = set_flag Translate True (set_flag Convert True s2)
      in if source_ext cfg = [] \<or> target_ext cfg = [] then
           (Some ''Error: source_ext or target_ext is not defined.'', s3)
         else if source_ext cfg = target_ext cfg then
           (Some ''Error: source_ext and target_ext cannot be the same.'', s3)
         else if Help \<notin> set (cmd_flags cfg) then
           (Some ''Error: cmd_flags must contain 'help' flag.'', s3)
         else if Version \<notin> set (cmd_flags cfg) then
           (Some ''Error: cmd_flags must contain 'version' flag.'', s3)
         else if length (cmd_flags cfg) < 3 then
           (Some ''Error: cmd_flags is not defined.'', s3)
         else (None, s3))"

text \<open>
  The block \<open>if (files.size() == 2) { ... }\<close> of \<open>parseFiles\<close>, which reads \<open>_source\<close>
  and \<open>files[1]\<close> and writes \<open>_target\<close>: the result is how the block ends and the value it
  leaves in \<open>_target\<close>.
\<close>

definition explicit_target_A :: "filesystem \<Rightarrow> path \<Rightarrow> string list \<Rightarrow> block_end \<times> path" where
  "explicit_target_A fs source files =
     (let target = files ! 1;
          target = (if parent_path target = [] then
                      path_append (parent_path source) (filename target)
                    else target)
      in case is_directory fs (parent_path target) of
           None \<Rightarrow> (Raised, target)
         | Some d \<Rightarrow>
             if \<not> d then (Failed (''Target file has unknown directory '' @ target), target)
             else (Passed, target))"

definition parseFiles_A :: "config \<Rightarrow> filesystem \<Rightarrow> string list \<Rightarrow> state \<Rightarrow> outcome \<times> state" where
  "parseFiles_A cfg fs files s =
     (if files = [] then err ''No source file specified'' s
      else if length files > 2 then err ''argument: Too many arguments'' s
      else
        let s1 = s\<lparr>m_source := files ! 0\<rparr> in
        case is_directory fs (m_source s1) of
          None \<Rightarrow> (Threw Filesystem_error, s1)
        | Some d \<Rightarrow>
            if d then
              (if length files > 1 then err ''argument: Too many arguments'' s1
               else (Returned True, s1\<lparr>cmd_source := m_source s1, cmd_target := m_target s1\<rparr>))
            else
              case exists fs (m_source s1) of
                None \<Rightarrow> (Threw Filesystem_error, s1)
              | Some e \<Rightarrow>
                  if \<not> e then err (''Could not find the source file '' @ files ! 0) s1
                  else
                    let extension = getExtension (m_source s1) in
                    if extension \<notin> set (source_ext cfg) then
                      err (''Source file is not a valid extension: '' @ m_source s1) s1
                    else
                      let s2 = s1\<lparr>m_target := replace_extension (m_source s1) (defaultTargetExt cfg)\<rparr>;
                          (b, target) = (if length files = 2 then explicit_target_A fs (m_source s2) files
                                         else (Passed, m_target s2));
                          s3 = s2\<lparr>m_target := target\<rparr>
                      in case b of
                           Raised \<Rightarrow> (Threw Filesystem_error, s3)
                         | Failed msg \<Rightarrow> err msg s3
                         | Passed \<Rightarrow>
                             if tolower (m_source s3) = tolower (m_target s3) then
                               err ''Source and target files are the same'' s3
                             else (Returned True,
                                   s3\<lparr>cmd_source := m_source s3, cmd_target := m_target s3\<rparr>))"

text \<open>
  \<open>parse\<close>: \<open>argv\<close> is the whole argument vector, program name first.  A null entry is
  read as the empty string by the source, and skipped like one.
\<close>

definition is_flag_token :: "string \<Rightarrow> bool" where
  "is_flag_token arg = (arg \<noteq> [] \<and> hd arg = CHR ''-'')"

definition is_file_token :: "string \<Rightarrow> bool" where
  "is_file_token arg = (arg \<noteq> [] \<and> hd arg \<noteq> CHR ''-'')"

definition parse_A :: "config \<Rightarrow> filesystem \<Rightarrow> string list \<Rightarrow> state \<Rightarrow> outcome \<times> state" where
  "parse_A cfg fs argv s =
     (case check_A cfg s of
        (Some what, s0) \<Rightarrow> (Threw (Runtime_error what), s0)
      | (None, s0) \<Rightarrow>
          let flags = filter is_flag_token (drop 1 argv);
              files = filter is_file_token (drop 1 argv);
              (r, s1) = parseFlags (text_help_A cfg) cfg flags (length files) s0
          in if r = Returned True then parseFiles_A cfg fs files s1 else (r, s1))"

text \<open>
  The free function \<open>cmd::parse\<close> runs \<open>parse\<close> on a parser object of its own, whose
  \<open>_source\<close> and \<open>_target\<close> start empty and are gone when it returns.
\<close>

definition cmd_parse_A :: "config \<Rightarrow> filesystem \<Rightarrow> string list \<Rightarrow> state \<Rightarrow> outcome \<times> state" where
  "cmd_parse_A cfg fs argv s =
     (let (r, s') = parse_A cfg fs argv (s\<lparr>m_source := [], m_target := []\<rparr>)
      in (r, s'\<lparr>m_source := m_source s, m_target := m_target s\<rparr>))"

section \<open>The later header, with target directories and target extension validation\<close>

text \<open>
  Definitions with the suffix \<open>_B\<close> follow the first header of \<open>src/unnamed/part_001\<close>.
  There every flag object remembers the value it was constructed with in \<open>defaultOn\<close>,
  and \<open>clear()\<close> restores it.
\<close>

fun defaultOn :: "flag_id \<Rightarrow> bool" where
  "defaultOn Convert = True"
| "defaultOn Translate = False"
| "defaultOn Help = False"
| "defaultOn Version = False"

definition clear_flag :: "flag_id \<Rightarrow> state \<Rightarrow> state" where
  "clear_flag f s = set_flag f (defaultOn f) s"

definition text_help_B :: "config \<Rightarrow> string" where
  "text_help_B cfg =
     nl @ ''Usage: MyProgram [options] <source_path> [target_path]'' @ nl @ nl
     @ ''Options:'' @ nl @ nl
     @ ''  -convert       Convert the source to the target format (default)'' @ nl
     @ ''  -translate     Enable translation (must be specified)'' @ nl
     @ ''  -help          Show this help message'' @ nl
     @ ''  -version       Show version information'' @ nl
     @ nl
     @ ''File extensions:'' @ nl @ nl
     @ ''  Source: '' @ join (source_ext cfg) '', '' @ nl
     @ ''  Target: '' @ join (target_ext cfg) '', '' @ nl @ nl
     @ ''Notes:'' @ nl @ nl
     @ ''  Paths are resolved relative to the current working directory.'' @ nl
     @ ''  If target_path is given without a directory, it is placed next to the source file.'' @ nl
     @ ''  If target_path is a directory, output is placed in that directory.'' @ nl
     @ ''  If target_path is omitted, the output name is derived from the source file.'' @ nl
     @ ''  Example:  input.txt  ->  input.csv'' @ nl"

definition check_B :: "config \<Rightarrow> state \<Rightarrow> string option \<times> state" where
  "check_B cfg s =
     (let s1 = s\<lparr>cmd_source := [], cmd_target := []\<rparr>;
          s2 = fold clear_flag (cmd_flags cfg) s1
      in if source_ext cfg = [] \<or> target_ext cfg = [] then
           (Some ''Error: source_ext or target_ext is not defined.'', s2)
         else if Help \<notin> set (cmd_flags cfg) then
           (Some ''Error: cmd_flags must contain 'help' flag.'', s2)
         else if Version \<notin> set (cmd_flags cfg) then
           (Some ''Error: cmd_flags must contain 'version' flag.'', s2)
         else if length (cmd_flags cfg) < 3 then
           (Some ''Error: cmd_flags is not defined.'', s2)
         else (None, s2))"

text \<open>
  The statement \<open>if (_source.parent_path().empty()) _source = current_path() / _source;\<close>
  as a function of \<open>_source\<close>: the new value, or \<open>None\<close> when \<open>current_path()\<close> throws.
\<close>

definition anchor_B :: "filesystem \<Rightarrow> path \<Rightarrow> path option" where
  "anchor_B fs source =
     (if parent_path source = [] then
        (case current_path fs of None \<Rightarrow> None | Some cwd \<Rightarrow> Some (path_append cwd source))
      else Some source)"

text \<open>
  The block \<open>if (!_target.has_extension()) { ... }\<close>, and around it the block
  \<open>if (files.size() == 2) { ... }\<close> of this header, read as in \<open>CmdArgs.h\<close>.  The parent of
  the target is only queried when it is not the empty path.
\<close>

definition directory_target_B :: "config \<Rightarrow> filesystem \<Rightarrow> path \<Rightarrow> path \<Rightarrow> block_end \<times> path" where
  "directory_target_B cfg fs source target =
     (if \<not> has_extension target then
        (case is_directory fs target of
           None \<Rightarrow> (Raised, target)
         | Some d \<Rightarrow>
             if \<not> d then (Failed (''Target directory does not exist '' @ target), target)
             else
               let target = path_append target (filename source);
                   target = replace_extension target (defaultTargetExt cfg)
               in (Passed, target))
      else (Passed, target))"

definition explicit_target_B :: "config \<Rightarrow> filesystem \<Rightarrow> path \<Rightarrow> string list \<Rightarrow> block_end \<times> path" where
  "explicit_target_B cfg fs source files =
     (let target = files ! 1;
          target = (if parent_path target = [] then path_append (parent_path source) target
                    else target)
      in if parent_path target \<noteq> [] then
           (case is_directory fs (parent_path target) of
              None \<Rightarrow> (Raised, target)
            | Some d \<Rightarrow>
                if \<not> d then
                  (if has_extension target then
                     (Failed (''Target file has unknown directory '' @ target), target)
                   else (Failed (''Target directory does not exist '' @ target), target))
                else directory_target_B cfg fs source target)
         else directory_target_B cfg fs source target)"

definition parseFiles_B :: "config \<Rightarrow> filesystem \<Rightarrow> string list \<Rightarrow> state \<Rightarrow> outcome \<times> state" where
  "parseFiles_B cfg fs files s =
     (if files = [] then err ''No source file specified'' s
      else if length files > 2 then err ''argument: Too many arguments'' s
      else
        let s1 = s\<lparr>m_source := files ! 0\<rparr> in
        case is_directory fs (m_source s1) of
          None \<Rightarrow> (Threw Filesystem_error, s1)
        | Some d \<Rightarrow>
            if d then
              (if length files > 1 then err ''argument: Too many arguments'' s1
               else (Returned True, s1\<lparr>cmd_source := m_source s1, cmd_target := []\<rparr>))
            else
              case anchor_B fs (m_source s1) of
                None \<Rightarrow> (Threw Filesystem_error, s1)
              | Some source \<Rightarrow>
                  let s2 = s1\<lparr>m_source := source\<rparr> in
                  case exists fs (m_source s2) of
                    None \<Rightarrow> (Threw Filesystem_error, s2)
                  | Some e \<Rightarrow>
                      if \<not> e then err (''Could not find the source file '' @ files ! 0) s2
                      else if getExtension (m_source s2) \<notin> set (source_ext cfg) then
                        err (''Source file is not a valid extension: '' @ m_source s2) s2
                      else
                        let s3 = s2\<lparr>m_target := replace_extension (m_source s2) (defaultTargetExt cfg)\<rparr>;
                            (b, target) = (if length files = 2
                                           then explicit_target_B cfg fs (m_source s3) files
                                           else (Passed, m_target s3));
                            s4 = s3\<lparr>m_target := target\<rparr>
                        in case b of
                             Raised \<Rightarrow> (Threw Filesystem_error, s4)
                           | Failed msg \<Rightarrow> err msg s4
                           | Passed \<Rightarrow>
                               if tolower (m_source s4) = tolower (m_target s4) then
                                 err ''Source and target files are the same'' s4
                               else if getExtension (m_target s4) \<notin> set (target_ext cfg) then
                                 err (''Target file is not a valid extension: '' @ m_target s4) s4
                               else (Returned True,
                                     s4\<lparr>cmd_source := m_source s4, cmd_target := m_target s4\<rparr>))"

definition parse_B :: "config \<Rightarrow> filesystem \<Rightarrow> string list \<Rightarrow> state \<Rightarrow> outcome \<times> state" where
  "parse_B cfg fs argv s =
     (case check_B cfg s of
        (Some what, s0) \<Rightarrow> (Threw (Runtime_error what), s0)
      | (None, s0) \<Rightarrow>
          let flags = filter is_flag_token (drop 1 argv);
              files = filter is_file_token (drop 1 argv);
              (r, s1) = parseFlags (text_help_B cfg) cfg flags (length files) s0
          in if r = Returned True then parseFiles_B cfg fs files s1 else (r, s1))"

definition cmd_parse_B :: "config \<Rightarrow> filesystem \<Rightarrow> string list \<Rightarrow> state \<Rightarrow> outcome \<times> state" where
  "cmd_parse_B cfg fs argv s =
     (let (r, s') = parse_B cfg fs argv (s\<lparr>m_source := [], m_target := []\<rparr>)
      in (r, s'\<lparr>m_source := m_source s, m_target := m_target s\<rparr>))"

section \<open>Inputs the statements below are about\<close>

text \<open>
  The argument vectors whose flag tokens all name a registered flag other than \<open>help\<close> and
  \<open>version\<close>: these are the calls in which \<open>parseFlags\<close> returns \<open>true\<close> and
  \<open>parseFiles\<close> runs.
\<close>

definition passes_flags :: "config \<Rightarrow> string list \<Rightarrow> bool" where
  "passes_flags cfg argv =
     (\<forall>t \<in> set (filter is_flag_token (drop 1 argv)).
        (\<exists>f \<in> set (cmd_flags cfg). matches t f) \<and> \<not> matches t Help \<and> \<not> matches t Version)"

text \<open>
  A small file system, and the state of a process that has not parsed yet (flags as
  constructed, empty paths, nothing written), for running the definitions.  The directory
  \<open>/locked\<close> may not be searched, so the queries about what is inside it throw.
\<close>

definition refused :: "path list" where
  "refused = [''/locked/in.txt'', ''/locked/sub'', ''/locked/sub/out.csv'']"

definition sample_fs :: filesystem where
  "sample_fs =
     \<lparr> is_directory = (\<lambda>p. if p \<in> set refused then None
                           else Some (p \<in> set [''/'', ''/home'', ''/home/out'', ''/locked'', ''photos''])),
       exists = (\<lambda>p. if p \<in> set refused then None
                     else Some (p \<in> set [''/'', ''/home'', ''/home/out'', ''/locked'', ''photos'',
                                          ''/home/source.txt'', ''source.txt'', ''/home/SOURCE.TXT'',
                                          ''/home/a.jpg'', ''a.jpg'', ''/home/b.csv''])),
       current_path = Some ''/home'' \<rparr>"

definition fresh_A :: state where
  "fresh_A = \<lparr> cmd_source = [], cmd_target = [], flag_on = initial_on_A,
               m_source = [], m_target = [], cout = [], cerr = [] \<rparr>"

definition fresh_B :: state where
  "fresh_B = \<lparr> cmd_source = [], cmd_target = [], flag_on = defaultOn,
               m_source = [], m_target = [], cout = [], cerr = [] \<rparr>"

text \<open>
  An entry of an extension list as the header writes them: not empty, in lower case, with no
  period and no separator in it.
\<close>

definition plain_ext :: "string \<Rightarrow> bool" where
  "plain_ext e = (e \<noteq> [] \<and> (\<forall>c \<in> set e. \<not> is_dot c \<and> \<not> is_sep c) \<and> tolower e = e)"

text \<open>The pathname up to and including its last separator.\<close>

definition dirpart :: "path \<Rightarrow> path" where
  "dirpart p = rev (dropWhile (\<lambda>c. \<not> is_sep c) (rev p))"

section \<open>Auxiliary facts\<close>

lemma fst_err [simp]: "fst (err msg s) = Returned False"
  by (simp add: err_def)

lemma snd_err [simp]: "snd (err msg s) = s\<lparr>cerr := cerr s @ [''Error: '' @ msg]\<rparr>"
  by (simp add: err_def)

lemma fold_clear_flag:
  "fold clear_flag reg s = s\<lparr>flag_on := (\<lambda>f. if f \<in> set reg then defaultOn f else flag_on s f)\<rparr>"
  by (induction reg arbitrary: s) (auto simp: clear_flag_def set_flag_def fun_eq_iff)

lemma fold_set_flag_False:
  "fold (\<lambda>f. set_flag f False) reg s = s\<lparr>flag_on := (\<lambda>f. if f \<in> set reg then False else flag_on s f)\<rparr>"
  by (induction reg arbitrary: s) (auto simp: set_flag_def fun_eq_iff)

lemma matches_unique: "matches t f \<Longrightarrow> matches t g \<Longrightarrow> f = g"
  by (cases f; cases g) (auto simp: matches_def)

lemma find_matches_Some: "find (matches t) reg = Some f \<longleftrightarrow> f \<in> set reg \<and> matches t f"
proof
  assume "find (matches t) reg = Some f"
  then show "f \<in> set reg \<and> matches t f"
    by (auto simp: find_Some_iff)
next
  assume a: "f \<in> set reg \<and> matches t f"
  then have "find (matches t) reg \<noteq> None"
    by (auto simp: find_None_iff)
  then obtain g where g: "find (matches t) reg = Some g" by auto
  then have "matches t g" by (auto simp: find_Some_iff)
  with a have "g = f" by (blast intro: matches_unique)
  with g show "find (matches t) reg = Some f" by simp
qed

lemma find_matches_None: "find (matches t) reg = None \<longleftrightarrow> (\<forall>f \<in> set reg. \<not> matches t f)"
  by (auto simp: find_None_iff)

text \<open>The loop touches nothing but the flags.\<close>

lemma flags_loop_frame:
  "flags_loop reg flags n s = (b, n', s') \<Longrightarrow>
     cmd_source s' = cmd_source s \<and> cmd_target s' = cmd_target s \<and> m_source s' = m_source s
     \<and> m_target s' = m_target s \<and> cout s' = cout s \<and> cerr s' = cerr s"
  by (induction flags arbitrary: n s) (auto simp: set_flag_def split: option.splits)

lemma flags_loop_untouched:
  "flags_loop reg flags n s = (b, n', s') \<Longrightarrow> \<forall>t \<in> set flags. \<not> matches t f \<Longrightarrow>
     flag_on s' f = flag_on s f"
proof (induction flags arbitrary: n s)
  case Nil
  then show ?case by simp
next
  case (Cons t flags)
  show ?case
  proof (cases "find (matches t) reg")
    case None
    with Cons.prems show ?thesis by simp
  next
    case (Some g)
    then have "matches t g" by (simp add: find_matches_Some)
    with Cons.prems(2) have "g \<noteq> f" by auto
    moreover from Cons.prems(1) Some
    have "flags_loop reg flags (Suc n) (set_flag g True s) = (b, n', s')" by simp
    ultimately show ?thesis
      using Cons.IH [of "Suc n" "set_flag g True s"] Cons.prems(2)
      by (simp add: set_flag_def)
  qed
qed

lemma flags_loop_known:
  "\<forall>t \<in> set flags. \<exists>f \<in> set reg. matches t f \<Longrightarrow>
     flags_loop reg flags n s =
       (None, n + length flags,
        s\<lparr>flag_on := (\<lambda>f. flag_on s f \<or> (f \<in> set reg \<and> (\<exists>t \<in> set flags. matches t f)))\<rparr>)"
proof (induction flags arbitrary: n s)
  case Nil
  then show ?case by simp
next
  case (Cons t flags)
  then obtain g where g: "g \<in> set reg" "matches t g" by auto
  then have f: "find (matches t) reg = Some g" by (simp add: find_matches_Some)
  have "\<forall>t \<in> set flags. \<exists>f \<in> set reg. matches t f" using Cons.prems by simp
  from Cons.IH [OF this, of "Suc n" "set_flag g True s"]
  have step: "flags_loop reg (t # flags) n s =
      (None, Suc n + length flags,
       (set_flag g True s)\<lparr>flag_on := (\<lambda>f. flag_on (set_flag g True s) f
          \<or> (f \<in> set reg \<and> (\<exists>t \<in> set flags. matches t f)))\<rparr>)"
    using f by simp
  have "(\<lambda>f. flag_on (set_flag g True s) f \<or> (f \<in> set reg \<and> (\<exists>t \<in> set flags. matches t f)))
      = (\<lambda>f. flag_on s f \<or> (f \<in> set reg \<and> (\<exists>u \<in> set (t # flags). matches u f)))"
    using g by (auto simp: set_flag_def fun_eq_iff dest: matches_unique)
  with step show ?case
    by (simp add: set_flag_def)
qed

lemma check_B_state:
  "snd (check_B cfg s) =
     s\<lparr>cmd_source := [], cmd_target := [],
       flag_on := (\<lambda>f. if f \<in> set (cmd_flags cfg) then defaultOn f else flag_on s f)\<rparr>"
  by (simp add: check_B_def Let_def fold_clear_flag)

lemma check_A_state:
  "snd (check_A cfg s) =
     s\<lparr>cmd_source := [], cmd_target := [],
       flag_on := (\<lambda>f. if f = Convert \<or> f = Translate then True
                         else if f \<in> set (cmd_flags cfg) then False else flag_on s f)\<rparr>"
  by (auto simp: check_A_def Let_def fold_set_flag_False set_flag_def fun_eq_iff)

lemma check_B_None:
  "fst (check_B cfg s) = None \<longleftrightarrow>
     source_ext cfg \<noteq> [] \<and> target_ext cfg \<noteq> [] \<and> Help \<in> set (cmd_flags cfg)
     \<and> Version \<in> set (cmd_flags cfg) \<and> 3 \<le> length (cmd_flags cfg)"
  by (auto simp: check_B_def Let_def)

lemma check_A_None:
  "fst (check_A cfg s) = None \<longleftrightarrow>
     source_ext cfg \<noteq> [] \<and> target_ext cfg \<noteq> [] \<and> source_ext cfg \<noteq> target_ext cfg
     \<and> Help \<in> set (cmd_flags cfg) \<and> Version \<in> set (cmd_flags cfg) \<and> 3 \<le> length (cmd_flags cfg)"
  by (auto simp: check_A_def Let_def)

text \<open>What \<open>parseFlags\<close> does when every token names a registered flag.\<close>

lemma parseFlags_known:
  assumes "\<forall>t \<in> set flags. \<exists>f \<in> set (cmd_flags cfg). matches t f"
    and "Help \<in> set (cmd_flags cfg)" and "Version \<in> set (cmd_flags cfg)"
    and "\<not> flag_on s Help" and "\<not> flag_on s Version"
  shows "parseFlags th cfg flags k s =
     (let s' = s\<lparr>flag_on := (\<lambda>f. flag_on s f
                   \<or> (f \<in> set (cmd_flags cfg) \<and> (\<exists>t \<in> set flags. matches t f)))\<rparr>
      in if \<exists>t \<in> set flags. matches t Help \<or> matches t Version then
           if length flags > 1 \<or> k \<noteq> 0 then err ''argument: Too many arguments'' s'
           else if \<exists>t \<in> set flags. matches t Help then info th 0 s'
           else info (text_version cfg) 0 s'
         else (Returned True, s'))"
  using assms by (auto simp: parseFlags_def flags_loop_known [OF assms(1)] Let_def)

lemma parseFlags_pass:
  assumes "\<forall>t \<in> set flags. (\<exists>f \<in> set (cmd_flags cfg). matches t f)
             \<and> \<not> matches t Help \<and> \<not> matches t Version"
    and "Help \<in> set (cmd_flags cfg)" and "Version \<in> set (cmd_flags cfg)"
    and "\<not> flag_on s Help" and "\<not> flag_on s Version"
  shows "parseFlags th cfg flags k s =
     (Returned True, s\<lparr>flag_on := (\<lambda>f. flag_on s f
                   \<or> (f \<in> set (cmd_flags cfg) \<and> (\<exists>t \<in> set flags. matches t f)))\<rparr>)"
proof -
  have known: "\<forall>t \<in> set flags. \<exists>f \<in> set (cmd_flags cfg). matches t f"
    using assms(1) by blast
  have none: "\<not> (\<exists>t \<in> set flags. matches t Help \<or> matches t Version)"
    using assms(1) by blast
  show ?thesis
    unfolding parseFlags_known [OF known assms(2-5)] Let_def using none by simp
qed

lemma parse_A_reaches:
  assumes "fst (check_A cfg s) = None" and "passes_flags cfg argv"
  shows "\<exists>s1. parse_A cfg fs argv s = parseFiles_A cfg fs (filter is_file_token (drop 1 argv)) s1
           \<and> cmd_source s1 = [] \<and> cmd_target s1 = [] \<and> m_source s1 = m_source s
           \<and> m_target s1 = m_target s \<and> cout s1 = cout s \<and> cerr s1 = cerr s"
proof -
  define s0 where "s0 = snd (check_A cfg s)"
  let ?flags = "filter is_flag_token (drop 1 argv)"
  from assms(1) have reg: "Help \<in> set (cmd_flags cfg)" "Version \<in> set (cmd_flags cfg)"
    by (simp_all add: check_A_None)
  have off: "\<not> flag_on s0 Help" "\<not> flag_on s0 Version"
    using reg by (simp_all add: s0_def check_A_state)
  have fields: "cmd_source s0 = []" "cmd_target s0 = []" "m_source s0 = m_source s"
    "m_target s0 = m_target s" "cout s0 = cout s" "cerr s0 = cerr s"
    by (simp_all add: s0_def check_A_state)
  have pass: "\<forall>t \<in> set ?flags. (\<exists>f \<in> set (cmd_flags cfg). matches t f)
             \<and> \<not> matches t Help \<and> \<not> matches t Version"
    using assms(2) by (simp add: passes_flags_def)
  have ck: "check_A cfg s = (None, s0)"
    using assms(1) by (cases "check_A cfg s") (simp add: s0_def)
  have pf: "parseFlags (text_help_A cfg) cfg ?flags (length (filter is_file_token (drop 1 argv))) s0 =
     (Returned True, s0\<lparr>flag_on := (\<lambda>f. flag_on s0 f
                   \<or> (f \<in> set (cmd_flags cfg) \<and> (\<exists>t \<in> set ?flags. matches t f)))\<rparr>)"
    by (rule parseFlags_pass [OF pass reg off])
  let ?s1 = "s0\<lparr>flag_on := (\<lambda>f. flag_on s0 f
                   \<or> (f \<in> set (cmd_flags cfg) \<and> (\<exists>t \<in> set ?flags. matches t f)))\<rparr>"
  have "parse_A cfg fs argv s = parseFiles_A cfg fs (filter is_file_token (drop 1 argv)) ?s1"
    by (simp only: parse_A_def ck Let_def prod.case option.case pf refl if_True)
  then show ?thesis
    by (intro exI [where x = ?s1]) (simp add: fields)
qed

lemma parse_B_reaches:
  assumes "fst (check_B cfg s) = None" and "passes_flags cfg argv"
  shows "\<exists>s1. parse_B cfg fs argv s = parseFiles_B cfg fs (filter is_file_token (drop 1 argv)) s1
           \<and> cmd_source s1 = [] \<and> cmd_target s1 = [] \<and> m_source s1 = m_source s
           \<and> m_target s1 = m_target s \<and> cout s1 = cout s \<and> cerr s1 = cerr s"
proof -
  define s0 where "s0 = snd (check_B cfg s)"
  let ?flags = "filter is_flag_token (drop 1 argv)"
  from assms(1) have reg: "Help \<in> set (cmd_flags cfg)" "Version \<in> set (cmd_flags cfg)"
    by (simp_all add: check_B_None)
  have off: "\<not> flag_on s0 Help" "\<not> flag_on s0 Version"
    using reg by (simp_all add: s0_def check_B_state)
  have fields: "cmd_source s0 = []" "cmd_target s0 = []" "m_source s0 = m_source s"
    "m_target s0 = m_target s" "cout s0 = cout s" "cerr s0 = cerr s"
    by (simp_all add: s0_def check_B_state)
  have pass: "\<forall>t \<in> set ?flags. (\<exists>f \<in> set (cmd_flags cfg). matches t f)
             \<and> \<not> matches t Help \<and> \<not> matches t Version"
    using assms(2) by (simp add: passes_flags_def)
  have ck: "check_B cfg s = (None, s0)"
    using assms(1) by (cases "check_B cfg s") (simp add: s0_def)
  have pf: "parseFlags (text_help_B cfg) cfg ?flags (length (filter is_file_token (drop 1 argv))) s0 =
     (Returned True, s0\<lparr>flag_on := (\<lambda>f. flag_on s0 f
                   \<or> (f \<in> set (cmd_flags cfg) \<and> (\<exists>t \<in> set ?flags. matches t f)))\<rparr>)"
    by (rule parseFlags_pass [OF pass reg off])
  let ?s1 = "s0\<lparr>flag_on := (\<lambda>f. flag_on s0 f
                   \<or> (f \<in> set (cmd_flags cfg) \<and> (\<exists>t \<in> set ?flags. matches t f)))\<rparr>"
  have "parse_B cfg fs argv s = parseFiles_B cfg fs (filter is_file_token (drop 1 argv)) ?s1"
    by (simp only: parse_B_def ck Let_def prod.case option.case pf refl if_True)
  then show ?thesis
    by (intro exI [where x = ?s1]) (simp add: fields)
qed

lemma parseFlags_frame:
  "parseFlags th cfg flags k s = (r, s') \<Longrightarrow>
     cmd_source s' = cmd_source s \<and> cmd_target s' = cmd_target s
     \<and> m_source s' = m_source s \<and> m_target s' = m_target s"
  by (auto simp: parseFlags_def err_def info_def split: prod.splits option.splits if_splits
      dest: flags_loop_frame)

lemma parseFlags_untouched:
  "parseFlags th cfg flags k s = (r, s') \<Longrightarrow> \<forall>t \<in> set flags. \<not> matches t f \<Longrightarrow>
     flag_on s' f = flag_on s f"
  by (auto simp: parseFlags_def err_def info_def split: prod.splits option.splits if_splits
      dest: flags_loop_untouched)

lemma parseFlags_no_throw: "fst (parseFlags th cfg flags k s) \<noteq> Threw what"
  by (auto simp: parseFlags_def err_def info_def split: prod.splits option.splits)

lemma parseFiles_A_no_throw: "fst (parseFiles_A cfg fs files s) \<noteq> Threw (Runtime_error what)"
  by (simp add: parseFiles_A_def err_def Let_def split: prod.split option.split block_end.split)

lemma parseFiles_B_no_throw: "fst (parseFiles_B cfg fs files s) \<noteq> Threw (Runtime_error what)"
  by (simp add: parseFiles_B_def err_def Let_def split: prod.split option.split block_end.split)

lemma parseFiles_A_flags: "flag_on (snd (parseFiles_A cfg fs files s)) = flag_on s"
  by (simp add: parseFiles_A_def err_def Let_def split: prod.split option.split block_end.split)

lemma parseFiles_B_flags: "flag_on (snd (parseFiles_B cfg fs files s)) = flag_on s"
  by (simp add: parseFiles_B_def err_def Let_def split: prod.split option.split block_end.split)

lemma parseFiles_A_failure:
  "fst (parseFiles_A cfg fs files s) = Returned False \<longrightarrow>
     cmd_source (snd (parseFiles_A cfg fs files s)) = cmd_source s
     \<and> cmd_target (snd (parseFiles_A cfg fs files s)) = cmd_target s"
  by (simp add: parseFiles_A_def err_def Let_def split: prod.split option.split block_end.split)

lemma parseFiles_B_failure:
  "fst (parseFiles_B cfg fs files s) = Returned False \<longrightarrow>
     cmd_source (snd (parseFiles_B cfg fs files s)) = cmd_source s
     \<and> cmd_target (snd (parseFiles_B cfg fs files s)) = cmd_target s"
  by (simp add: parseFiles_B_def err_def Let_def split: prod.split option.split block_end.split)

text \<open>The three ways through \<open>parse\<close>.\<close>

lemma parse_A_cases:
  obtains (threw) what s0 where "check_A cfg s = (Some what, s0)"
      and "parse_A cfg fs argv s = (Threw (Runtime_error what), s0)"
  | (flags) s0 r s1 where "check_A cfg s = (None, s0)"
      and "parseFlags (text_help_A cfg) cfg (filter is_flag_token (drop 1 argv))
             (length (filter is_file_token (drop 1 argv))) s0 = (r, s1)"
      and "r \<noteq> Returned True" and "parse_A cfg fs argv s = (r, s1)"
  | (files) s0 s1 where "check_A cfg s = (None, s0)"
      and "parseFlags (text_help_A cfg) cfg (filter is_flag_token (drop 1 argv))
             (length (filter is_file_token (drop 1 argv))) s0 = (Returned True, s1)"
      and "parse_A cfg fs argv s = parseFiles_A cfg fs (filter is_file_token (drop 1 argv)) s1"
proof (cases "check_A cfg s")
  case (Pair e s0)
  show ?thesis
  proof (cases e)
    case (Some what)
    have "parse_A cfg fs argv s = (Threw (Runtime_error what), s0)"
      by (simp only: parse_A_def Pair Some prod.case option.case)
    with Pair Some show ?thesis
      by (intro threw [of what s0]) simp_all
  next
    case None
    obtain r s1 where pf: "parseFlags (text_help_A cfg) cfg (filter is_flag_token (drop 1 argv))
             (length (filter is_file_token (drop 1 argv))) s0 = (r, s1)"
      by (cases "parseFlags (text_help_A cfg) cfg (filter is_flag_token (drop 1 argv))
             (length (filter is_file_token (drop 1 argv))) s0")
    show ?thesis
    proof (cases "r = Returned True")
      case True
      have "parse_A cfg fs argv s = parseFiles_A cfg fs (filter is_file_token (drop 1 argv)) s1"
        by (simp only: parse_A_def Pair None Let_def prod.case option.case pf True refl if_True)
      with pf True Pair None show ?thesis
        by (intro files [of s0 s1]) simp_all
    next
      case False
      have "parse_A cfg fs argv s = (r, s1)"
        by (simp only: parse_A_def Pair None Let_def prod.case option.case pf False if_False)
      with pf False Pair None show ?thesis
        by (intro flags [of s0 r s1]) simp_all
    qed
  qed
qed

lemma parse_B_cases:
  obtains (threw) what s0 where "check_B cfg s = (Some what, s0)"
      and "parse_B cfg fs argv s = (Threw (Runtime_error what), s0)"
  | (flags) s0 r s1 where "check_B cfg s = (None, s0)"
      and "parseFlags (text_help_B cfg) cfg (filter is_flag_token (drop 1 argv))
             (length (filter is_file_token (drop 1 argv))) s0 = (r, s1)"
      and "r \<noteq> Returned True" and "parse_B cfg fs argv s = (r, s1)"
  | (files) s0 s1 where "check_B cfg s = (None, s0)"
      and "parseFlags (text_help_B cfg) cfg (filter is_flag_token (drop 1 argv))
             (length (filter is_file_token (drop 1 argv))) s0 = (Returned True, s1)"
      and "parse_B cfg fs argv s = parseFiles_B cfg fs (filter is_file_token (drop 1 argv)) s1"
proof (cases "check_B cfg s")
  case (Pair e s0)
  show ?thesis
  proof (cases e)
    case (Some what)
    have "parse_B cfg fs argv s = (Threw (Runtime_error what), s0)"
      by (simp only: parse_B_def Pair Some prod.case option.case)
    with Pair Some show ?thesis
      by (intro threw [of what s0]) simp_all
  next
    case None
    obtain r s1 where pf: "parseFlags (text_help_B cfg) cfg (filter is_flag_token (drop 1 argv))
             (length (filter is_file_token (drop 1 argv))) s0 = (r, s1)"
      by (cases "parseFlags (text_help_B cfg) cfg (filter is_flag_token (drop 1 argv))
             (length (filter is_file_token (drop 1 argv))) s0")
    show ?thesis
    proof (cases "r = Returned True")
      case True
      have "parse_B cfg fs argv s = parseFiles_B cfg fs (filter is_file_token (drop 1 argv)) s1"
        by (simp only: parse_B_def Pair None Let_def prod.case option.case pf True refl if_True)
      with pf True Pair None show ?thesis
        by (intro files [of s0 s1]) simp_all
    next
      case False
      have "parse_B cfg fs argv s = (r, s1)"
        by (simp only: parse_B_def Pair None Let_def prod.case option.case pf False if_False)
      with pf False Pair None show ?thesis
        by (intro flags [of s0 r s1]) simp_all
    qed
  qed
qed

lemma parseFlags_no_throw':
  "parseFlags th cfg flags k s = (r, s') \<Longrightarrow> r \<noteq> Threw what"
  using parseFlags_no_throw [of th cfg flags k s what] by simp

lemma check_A_indep:
  "check_A cfg (s\<lparr>cmd_source := a, cmd_target := b,
       flag_on := (\<lambda>f. if f \<in> set (cmd_flags cfg) then g f else flag_on s f)\<rparr>) = check_A cfg s"
proof (rule prod_eqI)
  show "fst (check_A cfg (s\<lparr>cmd_source := a, cmd_target := b,
       flag_on := (\<lambda>f. if f \<in> set (cmd_flags cfg) then g f else flag_on s f)\<rparr>)) = fst (check_A cfg s)"
    by (simp add: check_A_def Let_def)
  show "snd (check_A cfg (s\<lparr>cmd_source := a, cmd_target := b,
       flag_on := (\<lambda>f. if f \<in> set (cmd_flags cfg) then g f else flag_on s f)\<rparr>)) = snd (check_A cfg s)"
    by (auto simp: check_A_state fun_eq_iff)
qed

lemma check_B_indep:
  "check_B cfg (s\<lparr>cmd_source := a, cmd_target := b,
       flag_on := (\<lambda>f. if f \<in> set (cmd_flags cfg) then g f else flag_on s f)\<rparr>) = check_B cfg s"
proof (rule prod_eqI)
  show "fst (check_B cfg (s\<lparr>cmd_source := a, cmd_target := b,
       flag_on := (\<lambda>f. if f \<in> set (cmd_flags cfg) then g f else flag_on s f)\<rparr>)) = fst (check_B cfg s)"
    by (simp add: check_B_def Let_def)
  show "snd (check_B cfg (s\<lparr>cmd_source := a, cmd_target := b,
       flag_on := (\<lambda>f. if f \<in> set (cmd_flags cfg) then g f else flag_on s f)\<rparr>)) = snd (check_B cfg s)"
    by (auto simp: check_B_state fun_eq_iff)
qed

lemma check_A_flag:
  "f \<in> set (cmd_flags cfg) \<Longrightarrow> flag_on (snd (check_A cfg s)) f = initial_on_A f"
  by (cases f) (simp_all add: check_A_state)

lemma parse_A_untouched:
  assumes "f \<in> set (cmd_flags cfg)" and "\<forall>a \<in> set (drop 1 argv). \<not> matches a f"
  shows "flag_on (snd (parse_A cfg fs argv s)) f = initial_on_A f"
proof -
  have none: "\<forall>t \<in> set (filter is_flag_token (drop 1 argv)). \<not> matches t f"
    using assms(2) by simp
  have reset: "flag_on s0 f = initial_on_A f" if "check_A cfg s = (e, s0)" for e s0
  proof -
    from that have "s0 = snd (check_A cfg s)" by simp
    with assms(1) show ?thesis by (simp add: check_A_flag)
  qed
  show ?thesis
  proof (cases rule: parse_A_cases [of cfg s fs argv])
    case (threw what s0)
    then show ?thesis using reset by simp
  next
    case (flags s0 r s1)
    then show ?thesis using reset parseFlags_untouched [OF flags(2) none] by simp
  next
    case (files s0 s1)
    then show ?thesis using reset parseFlags_untouched [OF files(2) none]
      by (simp add: parseFiles_A_flags)
  qed
qed

lemma parse_B_untouched:
  assumes "f \<in> set (cmd_flags cfg)" and "\<forall>a \<in> set (drop 1 argv). \<not> matches a f"
  shows "flag_on (snd (parse_B cfg fs argv s)) f = defaultOn f"
proof -
  have none: "\<forall>t \<in> set (filter is_flag_token (drop 1 argv)). \<not> matches t f"
    using assms(2) by simp
  have reset: "flag_on s0 f = defaultOn f" if "check_B cfg s = (e, s0)" for e s0
  proof -
    from that have "s0 = snd (check_B cfg s)" by simp
    with assms(1) show ?thesis by (simp add: check_B_state)
  qed
  show ?thesis
  proof (cases rule: parse_B_cases [of cfg s fs argv])
    case (threw what s0)
    then show ?thesis using reset by simp
  next
    case (flags s0 r s1)
    then show ?thesis using reset parseFlags_untouched [OF flags(2) none] by simp
  next
    case (files s0 s1)
    then show ?thesis using reset parseFlags_untouched [OF files(2) none]
      by (simp add: parseFiles_B_flags)
  qed
qed

lemma parse_A_help:
  assumes "fst (check_A cfg s) = None"
    and "\<forall>t \<in> set (filter is_flag_token (drop 1 argv)). \<exists>f \<in> set (cmd_flags cfg). matches t f"
    and "\<exists>t \<in> set (filter is_flag_token (drop 1 argv)). matches t Help \<or> matches t Version"
  shows "\<exists>s1. cout s1 = cout s \<and> cerr s1 = cerr s \<and> parse_A cfg fs argv s =
     (if length (filter is_flag_token (drop 1 argv)) > 1 \<or> filter is_file_token (drop 1 argv) \<noteq> []
      then err ''argument: Too many arguments'' s1
      else if \<exists>t \<in> set (filter is_flag_token (drop 1 argv)). matches t Help
      then info (text_help_A cfg) 0 s1
      else info (text_version cfg) 0 s1)"
proof -
  define s0 where "s0 = snd (check_A cfg s)"
  let ?flags = "filter is_flag_token (drop 1 argv)"
  let ?files = "filter is_file_token (drop 1 argv)"
  let ?s1 = "s0\<lparr>flag_on := (\<lambda>f. flag_on s0 f
                   \<or> (f \<in> set (cmd_flags cfg) \<and> (\<exists>t \<in> set ?flags. matches t f)))\<rparr>"
  from assms(1) have reg: "Help \<in> set (cmd_flags cfg)" "Version \<in> set (cmd_flags cfg)"
    by (simp_all add: check_A_None)
  have off: "\<not> flag_on s0 Help" "\<not> flag_on s0 Version"
    using reg by (simp_all add: s0_def check_A_state)
  have fields: "cout s0 = cout s" "cerr s0 = cerr s"
    by (simp_all add: s0_def check_A_state)
  have ck: "check_A cfg s = (None, s0)"
    using assms(1) by (cases "check_A cfg s") (simp add: s0_def)
  have pf: "parseFlags (text_help_A cfg) cfg ?flags (length ?files) s0 =
     (if length ?flags > 1 \<or> length ?files \<noteq> 0 then err ''argument: Too many arguments'' ?s1
      else if \<exists>t \<in> set ?flags. matches t Help then info (text_help_A cfg) 0 ?s1
      else info (text_version cfg) 0 ?s1)"
    unfolding parseFlags_known [OF assms(2) reg off] Let_def using assms(3) by simp
  have nt: "fst (parseFlags (text_help_A cfg) cfg ?flags (length ?files) s0) \<noteq> Returned True"
    unfolding pf by (simp add: err_def info_def)
  have "parse_A cfg fs argv s = parseFlags (text_help_A cfg) cfg ?flags (length ?files) s0"
    using nt by (simp only: parse_A_def ck Let_def prod.case option.case split: prod.split) auto
  then have "parse_A cfg fs argv s =
     (if length ?flags > 1 \<or> ?files \<noteq> [] then err ''argument: Too many arguments'' ?s1
      else if \<exists>t \<in> set ?flags. matches t Help then info (text_help_A cfg) 0 ?s1
      else info (text_version cfg) 0 ?s1)"
    unfolding pf by simp
  then show ?thesis
    by (intro exI [where x = ?s1]) (simp add: fields)
qed

lemma parse_B_help:
  assumes "fst (check_B cfg s) = None"
    and "\<forall>t \<in> set (filter is_flag_token (drop 1 argv)). \<exists>f \<in> set (cmd_flags cfg). matches t f"
    and "\<exists>t \<in> set (filter is_flag_token (drop 1 argv)). matches t Help \<or> matches t Version"
  shows "\<exists>s1. cout s1 = cout s \<and> cerr s1 = cerr s \<and> parse_B cfg fs argv s =
     (if length (filter is_flag_token (drop 1 argv)) > 1 \<or> filter is_file_token (drop 1 argv) \<noteq> []
      then err ''argument: Too many arguments'' s1
      else if \<exists>t \<in> set (filter is_flag_token (drop 1 argv)). matches t Help
      then info (text_help_B cfg) 0 s1
      else info (text_version cfg) 0 s1)"
proof -
  define s0 where "s0 = snd (check_B cfg s)"
  let ?flags = "filter is_flag_token (drop 1 argv)"
  let ?files = "filter is_file_token (drop 1 argv)"
  let ?s1 = "s0\<lparr>flag_on := (\<lambda>f. flag_on s0 f
                   \<or> (f \<in> set (cmd_flags cfg) \<and> (\<exists>t \<in> set ?flags. matches t f)))\<rparr>"
  from assms(1) have reg: "Help \<in> set (cmd_flags cfg)" "Version \<in> set (cmd_flags cfg)"
    by (simp_all add: check_B_None)
  have off: "\<not> flag_on s0 Help" "\<not> flag_on s0 Version"
    using reg by (simp_all add: s0_def check_B_state)
  have fields: "cout s0 = cout s" "cerr s0 = cerr s"
    by (simp_all add: s0_def check_B_state)
  have ck: "check_B cfg s = (None, s0)"
    using assms(1) by (cases "check_B cfg s") (simp add: s0_def)
  have pf: "parseFlags (text_help_B cfg) cfg ?flags (length ?files) s0 =
     (if length ?flags > 1 \<or> length ?files \<noteq> 0 then err ''argument: Too many arguments'' ?s1
      else if \<exists>t \<in> set ?flags. matches t Help then info (text_help_B cfg) 0 ?s1
      else info (text_version cfg) 0 ?s1)"
    unfolding parseFlags_known [OF assms(2) reg off] Let_def using assms(3) by simp
  have nt: "fst (parseFlags (text_help_B cfg) cfg ?flags (length ?files) s0) \<noteq> Returned True"
    unfolding pf by (simp add: err_def info_def)
  have "parse_B cfg fs argv s = parseFlags (text_help_B cfg) cfg ?flags (length ?files) s0"
    using nt by (simp only: parse_B_def ck Let_def prod.case option.case split: prod.split) auto
  then have "parse_B cfg fs argv s =
     (if length ?flags > 1 \<or> ?files \<noteq> [] then err ''argument: Too many arguments'' ?s1
      else if \<exists>t \<in> set ?flags. matches t Help then info (text_help_B cfg) 0 ?s1
      else info (text_version cfg) 0 ?s1)"
    unfolding pf by simp
  then show ?thesis
    by (intro exI [where x = ?s1]) (simp add: fields)
qed

lemma parseFiles_A_directory:
  assumes "is_directory fs tok = Some True"
  shows "parseFiles_A cfg fs (tok # rest) s =
     (if rest = [] then
        (Returned True, s\<lparr>m_source := tok, cmd_source := tok, cmd_target := m_target s\<rparr>)
      else err ''argument: Too many arguments''
             (if length rest > 1 then s else s\<lparr>m_source := tok\<rparr>))"
  using assms by (cases rest) (simp_all add: parseFiles_A_def Let_def)

lemma parseFiles_B_directory:
  assumes "is_directory fs tok = Some True"
  shows "parseFiles_B cfg fs (tok # rest) s =
     (if rest = [] then
        (Returned True, s\<lparr>m_source := tok, cmd_source := tok, cmd_target := []\<rparr>)
      else err ''argument: Too many arguments''
             (if length rest > 1 then s else s\<lparr>m_source := tok\<rparr>))"
  using assms by (cases rest) (simp_all add: parseFiles_B_def Let_def)

text \<open>
  Directory mode in the later header, and in \<open>CmdArgs.h\<close> when the parser object has not
  resolved a target before (as under \<open>cmd::parse\<close>, which makes a new one for every call).
\<close>

lemma directory_mode_B:
  assumes "fst (check_B cfg s) = None" and "passes_flags cfg argv"
    and "filter is_file_token (drop 1 argv) = tok # rest" and "is_directory fs tok = Some True"
  shows "if rest = [] then
           fst (parse_B cfg fs argv s) = Returned True
           \<and> cmd_source (snd (parse_B cfg fs argv s)) = tok
           \<and> cmd_target (snd (parse_B cfg fs argv s)) = []
           \<and> cerr (snd (parse_B cfg fs argv s)) = cerr s
         else
           fst (parse_B cfg fs argv s) = Returned False
           \<and> cerr (snd (parse_B cfg fs argv s)) = cerr s @ [''Error: argument: Too many arguments'']"
proof -
  from parse_B_reaches [OF assms(1,2), of fs] assms(3) obtain s1 where
    "parse_B cfg fs argv s = parseFiles_B cfg fs (tok # rest) s1" "cerr s1 = cerr s"
    by auto
  then show ?thesis
    by (simp add: parseFiles_B_directory [OF assms(4)] err_def)
qed

lemma directory_mode_A:
  assumes "fst (check_A cfg s) = None" and "passes_flags cfg argv"
    and "filter is_file_token (drop 1 argv) = tok # rest" and "is_directory fs tok = Some True"
  shows "if rest = [] then
           fst (parse_A cfg fs argv s) = Returned True
           \<and> cmd_source (snd (parse_A cfg fs argv s)) = tok
           \<and> cmd_target (snd (parse_A cfg fs argv s)) = m_target s
           \<and> cerr (snd (parse_A cfg fs argv s)) = cerr s
         else
           fst (parse_A cfg fs argv s) = Returned False
           \<and> cerr (snd (parse_A cfg fs argv s)) = cerr s @ [''Error: argument: Too many arguments'']"
proof -
  from parse_A_reaches [OF assms(1,2), of fs] assms(3) obtain s1 where
    "parse_A cfg fs argv s = parseFiles_A cfg fs (tok # rest) s1" "cerr s1 = cerr s"
    "m_target s1 = m_target s"
    by auto
  then show ?thesis
    by (simp add: parseFiles_A_directory [OF assms(4)] err_def)
qed

lemma directory_mode_cmd_parse_A:
  assumes "fst (check_A cfg s) = None" and "passes_flags cfg argv"
    and "filter is_file_token (drop 1 argv) = [tok]" and "is_directory fs tok = Some True"
  shows "fst (cmd_parse_A cfg fs argv s) = Returned True
         \<and> cmd_source (snd (cmd_parse_A cfg fs argv s)) = tok
         \<and> cmd_target (snd (cmd_parse_A cfg fs argv s)) = []"
proof -
  let ?s = "s\<lparr>m_source := [], m_target := []\<rparr>"
  have "fst (check_A cfg ?s) = None"
    using assms(1) by (simp add: check_A_None)
  from directory_mode_A [OF this assms(2,3,4)] show ?thesis
    by (cases "parse_A cfg fs argv ?s") (simp add: cmd_parse_A_def)
qed

lemma takeWhile_dropWhile_Nil: "takeWhile P (dropWhile P xs) = []"
  by (induction xs) auto

lemma takeWhile_all_then: "\<forall>x \<in> set xs. P x \<Longrightarrow> takeWhile P (xs @ ys) = xs @ takeWhile P ys"
  by (induction xs) auto

lemma parent_path_empty_iff: "parent_path p = [] \<longleftrightarrow> (\<forall>c \<in> set p. \<not> is_sep c)"
proof (cases "\<forall>c \<in> set p. is_sep c")
  case True
  then show ?thesis by (cases p) (simp_all add: parent_path_def)
next
  case False
  define r1 where "r1 = dropWhile (\<lambda>c. \<not> is_sep c) (rev p)"
  define r2 where "r2 = dropWhile is_sep r1"
  have pp: "parent_path p = (if r1 = [] then [] else if r2 = [] then ''/'' else rev r2)"
    unfolding parent_path_def Let_def r1_def r2_def by (simp only: False if_False)
  have "r1 = [] \<longleftrightarrow> (\<forall>c \<in> set p. \<not> is_sep c)"
    unfolding r1_def by (simp add: dropWhile_eq_Nil_conv)
  then show ?thesis
    unfolding pp by (cases "r1 = []"; cases "r2 = []") simp_all
qed

lemma filename_no_sep: "\<forall>c \<in> set q. \<not> is_sep c \<Longrightarrow> filename q = q"
proof -
  assume "\<forall>c \<in> set q. \<not> is_sep c"
  then have "takeWhile (\<lambda>c. \<not> is_sep c) (rev q) = rev q"
    by (simp add: takeWhile_eq_all_conv)
  then show ?thesis unfolding filename_def by (simp only: rev_rev_ident)
qed

lemma filename_sep_free: "c \<in> set (filename p) \<Longrightarrow> \<not> is_sep c"
  unfolding filename_def set_rev by (rule set_takeWhileD [THEN conjunct2])

lemma path_split: "p = dirpart p @ filename p"
proof -
  have "dirpart p @ filename p =
      rev (takeWhile (\<lambda>c. \<not> is_sep c) (rev p) @ dropWhile (\<lambda>c. \<not> is_sep c) (rev p))"
    by (simp only: dirpart_def filename_def rev_append)
  also have "\<dots> = rev (rev p)"
    by (simp only: takeWhile_dropWhile_id)
  finally show ?thesis by simp
qed

lemma filename_after:
  assumes "\<forall>c \<in> set g. \<not> is_sep c" and "takeWhile (\<lambda>c. \<not> is_sep c) (rev d) = []"
  shows "filename (d @ g) = g"
proof -
  have "takeWhile (\<lambda>c. \<not> is_sep c) (rev g @ rev d) = rev g @ takeWhile (\<lambda>c. \<not> is_sep c) (rev d)"
    using assms(1) by (intro takeWhile_all_then) simp
  then show ?thesis
    by (simp add: filename_def assms(2))
qed

lemma filename_dirpart_append: "\<forall>c \<in> set g. \<not> is_sep c \<Longrightarrow> filename (dirpart p @ g) = g"
  by (rule filename_after) (simp_all add: dirpart_def takeWhile_dropWhile_Nil)

lemma not_sep_hd: "\<forall>c \<in> set q. \<not> is_sep c \<Longrightarrow> \<not> (q \<noteq> [] \<and> is_sep (hd q))"
  by (cases q) simp_all

lemma filename_path_append:
  assumes "\<forall>c \<in> set q. \<not> is_sep c"
  shows "filename (path_append p q) = q"
proof -
  have a: "filename ((p @ ''/'') @ q) = q"
    using assms by (intro filename_after) (simp_all add: is_sep_def)
  have b: "filename (p @ q) = q" if "\<not> (p \<noteq> [] \<and> \<not> is_sep (last p))"
  proof (cases "p = []")
    case True
    then show ?thesis using assms by (simp add: filename_no_sep)
  next
    case False
    with that have "is_sep (last p)" by simp
    then have "takeWhile (\<lambda>c. \<not> is_sep c) (last p # rev (butlast p)) = []" by simp
    moreover from False have "rev p = last p # rev (butlast p)"
      by (metis append_butlast_last_id rev.simps(2) rev_swap)
    ultimately have "takeWhile (\<lambda>c. \<not> is_sep c) (rev p) = []"
      by (simp only:)
    with assms show ?thesis by (intro filename_after)
  qed
  show ?thesis
    using a b not_sep_hd [OF assms] by (auto simp: path_append_def)
qed

lemma path_append_has_sep:
  assumes "p \<noteq> []" and "\<forall>c \<in> set q. \<not> is_sep c"
  shows "\<exists>c \<in> set (path_append p q). is_sep c"
proof (cases "is_sep (last p)")
  case True
  moreover have "last p \<in> set p" using assms(1) by simp
  ultimately show ?thesis
    using not_sep_hd [OF assms(2)] assms(1) by (auto simp: path_append_def)
next
  case False
  then have "path_append p q = p @ ''/'' @ q"
    using not_sep_hd [OF assms(2)] assms(1) by (simp add: path_append_def)
  then show ?thesis
    by (simp add: is_sep_def)
qed

lemma parent_path_path_append:
  "p \<noteq> [] \<Longrightarrow> parent_path q = [] \<Longrightarrow> parent_path (path_append p q) \<noteq> []"
  using path_append_has_sep [of p q] by (auto simp: parent_path_empty_iff)

lemma has_extension_path_append:
  "parent_path q = [] \<Longrightarrow> has_extension (path_append p q) = has_extension q"
  by (simp add: has_extension_def extension_def filename_path_append filename_no_sep
      parent_path_empty_iff)

lemma extension_cases:
  "extension p = [] \<or>
     (\<exists>st e. filename p = st @ CHR ''.'' # e \<and> st \<noteq> [] \<and> (\<forall>c \<in> set e. \<not> is_dot c)
        \<and> extension p = CHR ''.'' # e)"
proof (cases "extension p = []")
  case True
  then show ?thesis by simp
next
  case False
  define f where "f = filename p"
  define tw where "tw = takeWhile (\<lambda>c. \<not> is_dot c) (rev f)"
  define dw where "dw = dropWhile (\<lambda>c. \<not> is_dot c) (rev f)"
  have ext: "extension p = (if f = ''.'' \<or> f = ''..'' then []
       else if length (rev tw) = length f then []
       else if Suc (length (rev tw)) = length f then []
       else CHR ''.'' # rev tw)"
    by (simp only: extension_def Let_def f_def tw_def)
  with False have len: "length tw \<noteq> length f" "Suc (length tw) \<noteq> length f"
    and e: "extension p = CHR ''.'' # rev tw"
    by (auto split: if_splits)
  have split: "rev f = tw @ dw"
    by (simp add: tw_def dw_def)
  with len(1) have "dw \<noteq> []"
    by (metis append_Nil2 length_rev)
  then obtain d r where dw: "dw = d # r" by (cases dw) auto
  have "\<not> (\<not> is_dot (hd dw))"
    using \<open>dw \<noteq> []\<close> unfolding dw_def by (rule hd_dropWhile)
  with dw have d: "d = CHR ''.''" by (simp add: is_dot_def)
  from split dw d have "rev (rev f) = rev (tw @ CHR ''.'' # r)" by simp
  then have f: "f = rev r @ CHR ''.'' # rev tw" by simp
  with len(2) have "rev r \<noteq> []" by auto
  moreover have "\<forall>c \<in> set (rev tw). \<not> is_dot c"
    by (auto simp: tw_def dest: set_takeWhileD)
  ultimately show ?thesis
    using f e unfolding f_def by blast
qed

lemma extension_intro:
  assumes "filename p = st @ CHR ''.'' # e" and "st \<noteq> []" and "e \<noteq> []"
    and "\<forall>c \<in> set e. \<not> is_dot c"
  shows "extension p = CHR ''.'' # e"
proof -
  have "takeWhile (\<lambda>c. \<not> is_dot c) (rev e @ CHR ''.'' # rev st) = rev e @ takeWhile (\<lambda>c. \<not> is_dot c) (CHR ''.'' # rev st)"
    using assms(4) by (intro takeWhile_all_then) simp
  then have tw: "rev (takeWhile (\<lambda>c. \<not> is_dot c) (rev (filename p))) = e"
    by (simp add: assms(1) is_dot_def)
  have "length (filename p) = length st + Suc (length e)"
    by (simp add: assms(1))
  moreover have "length st > 0" "length e > 0" using assms(2,3) by simp_all
  ultimately have "length (filename p) \<ge> 3" "length e \<noteq> length (filename p)"
    "Suc (length e) \<noteq> length (filename p)"
    by linarith+
  moreover from this(1) have "filename p \<noteq> ''.''" "filename p \<noteq> ''..''" by auto
  ultimately show ?thesis
    by (simp only: extension_def Let_def tw if_False simp_thms)
qed

lemma filename_stem_extension: "filename p = stem p @ extension p"
  using extension_cases [of p] by (auto simp: stem_def)

lemma stem_nonempty: "filename p \<noteq> [] \<Longrightarrow> stem p \<noteq> []"
  using extension_cases [of p] by (auto simp: stem_def)

lemma replace_extension_eq:
  "replace_extension p r =
     dirpart p @ stem p @ (if r \<noteq> [] \<and> \<not> is_dot (hd r) then ''.'' else []) @ r"
proof -
  have "p = (dirpart p @ stem p) @ extension p"
    using path_split [of p] filename_stem_extension [of p] by simp
  then have "take (length p - length (extension p)) p = dirpart p @ stem p"
    by (metis append_eq_conv_conj length_append add_diff_cancel_right')
  then show ?thesis
    by (simp add: replace_extension_def)
qed

lemma tolower_dot: "tolower (CHR ''.'' # e) = CHR ''.'' # tolower e"
  by (simp add: tolower_def tolower_char_def)

lemma replace_extension_plain:
  assumes "plain_ext e" and "filename p \<noteq> []"
  shows "filename (replace_extension p e) = stem p @ ''.'' @ e"
    and "extension (replace_extension p e) = CHR ''.'' # e"
    and "stem (replace_extension p e) = stem p"
    and "getExtension (replace_extension p e) = e"
proof -
  from assms(1) have e: "e \<noteq> []" "\<forall>c \<in> set e. \<not> is_dot c" "\<forall>c \<in> set e. \<not> is_sep c"
    "tolower e = e" "\<not> is_dot (hd e)"
    by (cases e; simp add: plain_ext_def)+
  have r: "replace_extension p e = dirpart p @ (stem p @ CHR ''.'' # e)"
    using e(1,5) by (simp add: replace_extension_eq)
  have "\<forall>c \<in> set (stem p). \<not> is_sep c"
    using filename_sep_free [of _ p] by (auto simp: stem_def Let_def dest: in_set_takeD)
  with e(3) have "\<forall>c \<in> set (stem p @ CHR ''.'' # e). \<not> is_sep c"
    by (auto simp: is_sep_def)
  then have f: "filename (replace_extension p e) = stem p @ CHR ''.'' # e"
    unfolding r by (rule filename_dirpart_append)
  then show "filename (replace_extension p e) = stem p @ ''.'' @ e" by simp
  show x: "extension (replace_extension p e) = CHR ''.'' # e"
    using f stem_nonempty [OF assms(2)] e(1,2) by (rule extension_intro)
  show "stem (replace_extension p e) = stem p"
    by (simp add: stem_def [of "replace_extension p e"] f x)
  show "getExtension (replace_extension p e) = e"
    by (simp add: getExtension_def x tolower_dot e(4))
qed

lemma parseFiles_B_file_mode:
  assumes "length rest \<le> 1" and "is_directory fs tok = Some False"
    and "anchor_B fs tok = Some src"
  shows "parseFiles_B cfg fs (tok # rest) s =
     (case exists fs src of
        None \<Rightarrow> (Threw Filesystem_error, s\<lparr>m_source := src\<rparr>)
      | Some e \<Rightarrow>
          if \<not> e then
            err (''Could not find the source file '' @ tok) (s\<lparr>m_source := src\<rparr>)
          else if getExtension src \<notin> set (source_ext cfg) then
            err (''Source file is not a valid extension: '' @ src) (s\<lparr>m_source := src\<rparr>)
          else
            case (if rest = [] then (Passed, replace_extension src (defaultTargetExt cfg))
                  else explicit_target_B cfg fs src (tok # rest)) of
              (b, tgt) \<Rightarrow>
                (case b of
                   Raised \<Rightarrow> (Threw Filesystem_error, s\<lparr>m_source := src, m_target := tgt\<rparr>)
                 | Failed msg \<Rightarrow> err msg (s\<lparr>m_source := src, m_target := tgt\<rparr>)
                 | Passed \<Rightarrow>
                     if tolower src = tolower tgt then
                       err ''Source and target files are the same''
                         (s\<lparr>m_source := src, m_target := tgt\<rparr>)
                     else if getExtension tgt \<notin> set (target_ext cfg) then
                       err (''Target file is not a valid extension: '' @ tgt)
                         (s\<lparr>m_source := src, m_target := tgt\<rparr>)
                     else (Returned True,
                           s\<lparr>m_source := src, m_target := tgt, cmd_source := src, cmd_target := tgt\<rparr>)))"
proof (cases rest)
  case Nil
  then show ?thesis
    using assms(2,3) by (simp add: parseFiles_B_def Let_def split: option.split)
next
  case (Cons t2 rest')
  with assms(1) have rest: "rest = [t2]" by simp
  show ?thesis
    unfolding rest using assms(2,3)
    by (simp add: parseFiles_B_def Let_def split: prod.split option.split block_end.split)
qed

lemma parseFiles_A_file_mode:
  assumes "length rest \<le> 1" and "is_directory fs tok = Some False"
  shows "parseFiles_A cfg fs (tok # rest) s =
     (case exists fs tok of
        None \<Rightarrow> (Threw Filesystem_error, s\<lparr>m_source := tok\<rparr>)
      | Some e \<Rightarrow>
          if \<not> e then
            err (''Could not find the source file '' @ tok) (s\<lparr>m_source := tok\<rparr>)
          else if getExtension tok \<notin> set (source_ext cfg) then
            err (''Source file is not a valid extension: '' @ tok) (s\<lparr>m_source := tok\<rparr>)
          else
            case (if rest = [] then (Passed, replace_extension tok (defaultTargetExt cfg))
                  else explicit_target_A fs tok (tok # rest)) of
              (b, tgt) \<Rightarrow>
                (case b of
                   Raised \<Rightarrow> (Threw Filesystem_error, s\<lparr>m_source := tok, m_target := tgt\<rparr>)
                 | Failed msg \<Rightarrow> err msg (s\<lparr>m_source := tok, m_target := tgt\<rparr>)
                 | Passed \<Rightarrow>
                     if tolower tok = tolower tgt then
                       err ''Source and target files are the same''
                         (s\<lparr>m_source := tok, m_target := tgt\<rparr>)
                     else (Returned True,
                           s\<lparr>m_source := tok, m_target := tgt, cmd_source := tok, cmd_target := tgt\<rparr>)))"
proof (cases rest)
  case Nil
  then show ?thesis
    using assms(2) by (simp add: parseFiles_A_def Let_def split: option.split)
next
  case (Cons t2 rest')
  with assms(1) have rest: "rest = [t2]" by simp
  show ?thesis
    unfolding rest using assms(2)
    by (simp add: parseFiles_A_def Let_def split: prod.split option.split block_end.split)
qed

text \<open>A query that throws at the first token, and \<open>current_path()\<close> throwing.\<close>

lemma parseFiles_A_refused:
  assumes "length rest \<le> 1" and "is_directory fs tok = None"
  shows "parseFiles_A cfg fs (tok # rest) s = (Threw Filesystem_error, s\<lparr>m_source := tok\<rparr>)"
  using assms by (simp add: parseFiles_A_def Let_def)

lemma parseFiles_B_refused:
  assumes "length rest \<le> 1"
    and "is_directory fs tok = None \<or> (is_directory fs tok = Some False \<and> anchor_B fs tok = None)"
  shows "parseFiles_B cfg fs (tok # rest) s = (Threw Filesystem_error, s\<lparr>m_source := tok\<rparr>)"
  using assms by (auto simp: parseFiles_B_def Let_def)

lemma defaultTargetExt_B: "fst (check_B cfg s) = None \<Longrightarrow> defaultTargetExt cfg = hd (target_ext cfg)"
  by (simp add: check_B_None defaultTargetExt_def)

lemma defaultTargetExt_A: "fst (check_A cfg s) = None \<Longrightarrow> defaultTargetExt cfg = hd (target_ext cfg)"
  by (simp add: check_A_None defaultTargetExt_def)

lemma anchored_parent:
  assumes "anchor_B fs tok = Some src" and "current_path fs \<noteq> Some []"
  shows "parent_path src \<noteq> []"
proof (cases "parent_path tok = []")
  case True
  with assms obtain cwd where "current_path fs = Some cwd" "cwd \<noteq> []" "src = path_append cwd tok"
    by (auto simp: anchor_B_def split: option.splits)
  with True show ?thesis by (simp add: parent_path_path_append)
next
  case False
  with assms(1) show ?thesis by (simp add: anchor_B_def)
qed

text \<open>The target block of the later header, case by case.\<close>

lemma explicit_target_B_parent:
  assumes "parent_path src \<noteq> []"
    and "tgt = (if parent_path tok2 = [] then path_append (parent_path src) tok2 else tok2)"
  shows "parent_path tgt \<noteq> []" and "has_extension tgt = has_extension tok2"
  using assms by (simp_all add: parent_path_path_append has_extension_path_append)

lemma explicit_target_B_missing_parent:
  assumes "parent_path src \<noteq> []"
    and "tgt = (if parent_path tok2 = [] then path_append (parent_path src) tok2 else tok2)"
    and "is_directory fs (parent_path tgt) = Some False"
  shows "explicit_target_B cfg fs src [tok, tok2] =
     (Failed ((if has_extension tok2 then ''Target file has unknown directory ''
               else ''Target directory does not exist '') @ tgt), tgt)"
  using explicit_target_B_parent [OF assms(1,2)] assms(3)
  by (simp add: explicit_target_B_def Let_def assms(2) [symmetric])

lemma explicit_target_B_refused_parent:
  assumes "parent_path src \<noteq> []"
    and "tgt = (if parent_path tok2 = [] then path_append (parent_path src) tok2 else tok2)"
    and "is_directory fs (parent_path tgt) = None"
  shows "explicit_target_B cfg fs src [tok, tok2] = (Raised, tgt)"
  using explicit_target_B_parent [OF assms(1,2)] assms(3)
  by (simp add: explicit_target_B_def Let_def assms(2) [symmetric])

lemma explicit_target_B_eq:
  assumes "tgt = (if parent_path tok2 = [] then path_append (parent_path src) tok2 else tok2)"
  shows "explicit_target_B cfg fs src [tok, tok2] =
     (if parent_path tgt \<noteq> [] then
        (case is_directory fs (parent_path tgt) of
           None \<Rightarrow> (Raised, tgt)
         | Some d \<Rightarrow>
             if \<not> d then
               (if has_extension tgt then
                  (Failed (''Target file has unknown directory '' @ tgt), tgt)
                else (Failed (''Target directory does not exist '' @ tgt), tgt))
             else directory_target_B cfg fs src tgt)
      else directory_target_B cfg fs src tgt)"
  unfolding assms by (simp add: explicit_target_B_def Let_def)

lemma explicit_target_B_file:
  assumes "tgt = (if parent_path tok2 = [] then path_append (parent_path src) tok2 else tok2)"
    and "has_extension tok2"
    and "parent_path tgt = [] \<or> is_directory fs (parent_path tgt) = Some True"
  shows "explicit_target_B cfg fs src [tok, tok2] = (Passed, tgt)"
proof -
  have ext: "has_extension tgt"
    using assms(1,2) by (simp add: has_extension_path_append)
  then have "directory_target_B cfg fs src tgt = (Passed, tgt)"
    by (simp add: directory_target_B_def)
  with assms(3) show ?thesis
    unfolding explicit_target_B_eq [OF assms(1)] by auto
qed

lemma explicit_target_B_directory:
  assumes "dir = (if parent_path tok2 = [] then path_append (parent_path src) tok2 else tok2)"
    and "\<not> has_extension tok2" and "is_directory fs dir = Some True"
    and "parent_path dir = [] \<or> is_directory fs (parent_path dir) = Some True"
  shows "explicit_target_B cfg fs src [tok, tok2] =
     (Passed, replace_extension (path_append dir (filename src)) (defaultTargetExt cfg))"
proof -
  have ext: "\<not> has_extension dir"
    using assms(1,2) by (simp add: has_extension_path_append)
  with assms(3) have "directory_target_B cfg fs src dir =
      (Passed, replace_extension (path_append dir (filename src)) (defaultTargetExt cfg))"
    by (simp add: directory_target_B_def Let_def)
  with assms(4) show ?thesis
    unfolding explicit_target_B_eq [OF assms(1)] by auto
qed

lemma explicit_target_A_eq:
  assumes "tgt = (if parent_path tok2 = [] then path_append (parent_path src) (filename tok2)
                  else tok2)"
  shows "explicit_target_A fs src [tok, tok2] =
     (case is_directory fs (parent_path tgt) of
        None \<Rightarrow> (Raised, tgt)
      | Some d \<Rightarrow> if d then (Passed, tgt)
                  else (Failed (''Target file has unknown directory '' @ tgt), tgt))"
  unfolding assms by (simp add: explicit_target_A_def Let_def split: option.split)


lemma parseFiles_B_same:
  assumes "length rest \<le> 1" and "is_directory fs tok = Some False"
    and "anchor_B fs tok = Some src"
    and "exists fs src = Some True" and "getExtension src \<in> set (source_ext cfg)"
    and "(if rest = [] then (Passed, replace_extension src (defaultTargetExt cfg))
          else explicit_target_B cfg fs src (tok # rest)) = (Passed, tgt)"
    and "tolower src = tolower tgt"
  shows "parseFiles_B cfg fs (tok # rest) s =
     err ''Source and target files are the same'' (s\<lparr>m_source := src, m_target := tgt\<rparr>)"
  unfolding parseFiles_B_file_mode [OF assms(1,2,3)] assms(6)
  using assms(4,5,7) by simp

lemma parseFiles_A_same:
  assumes "length rest \<le> 1" and "is_directory fs tok = Some False"
    and "exists fs tok = Some True" and "getExtension tok \<in> set (source_ext cfg)"
    and "(if rest = [] then (Passed, replace_extension tok (defaultTargetExt cfg))
          else explicit_target_A fs tok (tok # rest)) = (Passed, tgt)"
    and "tolower tok = tolower tgt"
  shows "parseFiles_A cfg fs (tok # rest) s =
     err ''Source and target files are the same'' (s\<lparr>m_source := tok, m_target := tgt\<rparr>)"
  unfolding parseFiles_A_file_mode [OF assms(1,2)] assms(5)
  using assms(3,4,6) by simp

lemma parseFiles_B_distinct:
  assumes "length rest \<le> 1" and "is_directory fs tok = Some False"
    and "fst (parseFiles_B cfg fs (tok # rest) s) = Returned True"
  shows "tolower (cmd_source (snd (parseFiles_B cfg fs (tok # rest) s)))
         \<noteq> tolower (cmd_target (snd (parseFiles_B cfg fs (tok # rest) s)))"
proof (cases "anchor_B fs tok")
  case None
  with assms show ?thesis
    by (simp add: parseFiles_B_refused)
next
  case (Some src)
  have "fst (parseFiles_B cfg fs (tok # rest) s) = Returned True \<longrightarrow>
      tolower (cmd_source (snd (parseFiles_B cfg fs (tok # rest) s)))
         \<noteq> tolower (cmd_target (snd (parseFiles_B cfg fs (tok # rest) s)))"
    unfolding parseFiles_B_file_mode [OF assms(1,2) Some]
    by (simp add: err_def split: option.split prod.split block_end.split)
  with assms(3) show ?thesis by simp
qed

lemma parseFiles_A_distinct:
  assumes "length rest \<le> 1" and "is_directory fs tok = Some False"
    and "fst (parseFiles_A cfg fs (tok # rest) s) = Returned True"
  shows "tolower (cmd_source (snd (parseFiles_A cfg fs (tok # rest) s)))
         \<noteq> tolower (cmd_target (snd (parseFiles_A cfg fs (tok # rest) s)))"
proof -
  have "fst (parseFiles_A cfg fs (tok # rest) s) = Returned True \<longrightarrow>
      tolower (cmd_source (snd (parseFiles_A cfg fs (tok # rest) s)))
         \<noteq> tolower (cmd_target (snd (parseFiles_A cfg fs (tok # rest) s)))"
    unfolding parseFiles_A_file_mode [OF assms(1,2)]
    by (simp add: err_def split: option.split prod.split block_end.split)
  with assms(3) show ?thesis by simp
qed

section \<open>The claims\<close>

text \<open>
  C1, as the code has it.  Take a call whose flag tokens all name registered flags, one of
  them \<open>help\<close> or \<open>version\<close>, under a configuration that passes \<open>check\<close>.  If there is
  more than one flag token, or at least one positional token, \<open>parse\<close> returns \<open>false\<close>
  after writing \<open>Error: argument: Too many arguments\<close>.  Otherwise it writes the help text
  (for \<open>help\<close>) or the version text to the standard output and ends the process with exit
  code 0, so nothing is returned.  The count is of tokens, not of distinct flags.
\<close>

theorem help_version_short_circuit:
  assumes "\<forall>t \<in> set (filter is_flag_token (drop 1 argv)). \<exists>f \<in> set (cmd_flags cfg). matches t f"
    and "\<exists>t \<in> set (filter is_flag_token (drop 1 argv)). matches t Help \<or> matches t Version"
  shows "(fst (check_A cfg s) = None \<longrightarrow>
      (if 1 < length (filter is_flag_token (drop 1 argv)) \<or> filter is_file_token (drop 1 argv) \<noteq> []
       then fst (parse_A cfg fs argv s) = Returned False
            \<and> cerr (snd (parse_A cfg fs argv s)) = cerr s @ [''Error: argument: Too many arguments'']
            \<and> cout (snd (parse_A cfg fs argv s)) = cout s
       else fst (parse_A cfg fs argv s) = Exited 0
            \<and> cout (snd (parse_A cfg fs argv s)) =
                cout s @ [if \<exists>t \<in> set (filter is_flag_token (drop 1 argv)). matches t Help
                          then text_help_A cfg else text_version cfg]
            \<and> cerr (snd (parse_A cfg fs argv s)) = cerr s))
   \<and> (fst (check_B cfg s) = None \<longrightarrow>
      (if 1 < length (filter is_flag_token (drop 1 argv)) \<or> filter is_file_token (drop 1 argv) \<noteq> []
       then fst (parse_B cfg fs argv s) = Returned False
            \<and> cerr (snd (parse_B cfg fs argv s)) = cerr s @ [''Error: argument: Too many arguments'']
            \<and> cout (snd (parse_B cfg fs argv s)) = cout s
       else fst (parse_B cfg fs argv s) = Exited 0
            \<and> cout (snd (parse_B cfg fs argv s)) =
                cout s @ [if \<exists>t \<in> set (filter is_flag_token (drop 1 argv)). matches t Help
                          then text_help_B cfg else text_version cfg]
            \<and> cerr (snd (parse_B cfg fs argv s)) = cerr s))"
proof (intro conjI impI)
  assume ck: "fst (check_A cfg s) = None"
  from parse_A_help [OF ck assms, of fs] obtain s1 where s1: "cout s1 = cout s" "cerr s1 = cerr s"
    and p: "parse_A cfg fs argv s =
     (if length (filter is_flag_token (drop 1 argv)) > 1 \<or> filter is_file_token (drop 1 argv) \<noteq> []
      then err ''argument: Too many arguments'' s1
      else if \<exists>t \<in> set (filter is_flag_token (drop 1 argv)). matches t Help
      then info (text_help_A cfg) 0 s1
      else info (text_version cfg) 0 s1)"
    by blast
  show "(if 1 < length (filter is_flag_token (drop 1 argv)) \<or> filter is_file_token (drop 1 argv) \<noteq> []
       then fst (parse_A cfg fs argv s) = Returned False
            \<and> cerr (snd (parse_A cfg fs argv s)) = cerr s @ [''Error: argument: Too many arguments'']
            \<and> cout (snd (parse_A cfg fs argv s)) = cout s
       else fst (parse_A cfg fs argv s) = Exited 0
            \<and> cout (snd (parse_A cfg fs argv s)) =
                cout s @ [if \<exists>t \<in> set (filter is_flag_token (drop 1 argv)). matches t Help
                          then text_help_A cfg else text_version cfg]
            \<and> cerr (snd (parse_A cfg fs argv s)) = cerr s)"
    unfolding p by (auto simp: err_def info_def s1)
next
  assume ck: "fst (check_B cfg s) = None"
  from parse_B_help [OF ck assms, of fs] obtain s1 where s1: "cout s1 = cout s" "cerr s1 = cerr s"
    and p: "parse_B cfg fs argv s =
     (if length (filter is_flag_token (drop 1 argv)) > 1 \<or> filter is_file_token (drop 1 argv) \<noteq> []
      then err ''argument: Too many arguments'' s1
      else if \<exists>t \<in> set (filter is_flag_token (drop 1 argv)). matches t Help
      then info (text_help_B cfg) 0 s1
      else info (text_version cfg) 0 s1)"
    by blast
  show "(if 1 < length (filter is_flag_token (drop 1 argv)) \<or> filter is_file_token (drop 1 argv) \<noteq> []
       then fst (parse_B cfg fs argv s) = Returned False
            \<and> cerr (snd (parse_B cfg fs argv s)) = cerr s @ [''Error: argument: Too many arguments'']
            \<and> cout (snd (parse_B cfg fs argv s)) = cout s
       else fst (parse_B cfg fs argv s) = Exited 0
            \<and> cout (snd (parse_B cfg fs argv s)) =
                cout s @ [if \<exists>t \<in> set (filter is_flag_token (drop 1 argv)). matches t Help
                          then text_help_B cfg else text_version cfg]
            \<and> cerr (snd (parse_B cfg fs argv s)) = cerr s)"
    unfolding p by (auto simp: err_def info_def s1)
qed

theorem help_version_short_circuit_witness:
  "matches ''--version'' Version
   \<and> fst (check_A demo fresh_A) = None \<and> fst (check_B demo fresh_B) = None
   \<and> fst (parse_A demo sample_fs [''prog'', ''--version''] fresh_A) = Exited 0
   \<and> cout (snd (parse_A demo sample_fs [''prog'', ''--version''] fresh_A)) = [''MyProgram version: 1.0.0'']
   \<and> fst (parse_B demo sample_fs [''prog'', ''--version''] fresh_B) = Exited 0
   \<and> cout (snd (parse_B demo sample_fs [''prog'', ''--version''] fresh_B)) = [''MyProgram version: 1.0.0'']"
proof -
  have fl: "filter is_flag_token (drop 1 [''prog'', ''--version'']) = [''--version'']"
    and fi: "filter is_file_token (drop 1 [''prog'', ''--version'']) = []"
    by (simp_all add: is_flag_token_def is_file_token_def)
  have m: "matches ''--version'' Version" "\<not> matches ''--version'' Help"
    by (simp_all add: matches_def)
  have h1: "\<forall>t \<in> set (filter is_flag_token (drop 1 [''prog'', ''--version''])). \<exists>f \<in> set (cmd_flags demo). matches t f"
    unfolding fl using m by (simp add: demo_def)
  have h2: "\<exists>t \<in> set (filter is_flag_token (drop 1 [''prog'', ''--version''])). matches t Help \<or> matches t Version"
    unfolding fl using m by simp
  have c: "fst (check_A demo fresh_A) = None" "fst (check_B demo fresh_B) = None"
    by (simp_all add: check_A_None check_B_None demo_def)
  have v: "text_version demo = ''MyProgram version: 1.0.0''" "cout fresh_A = []" "cout fresh_B = []"
    by (simp_all add: demo_def fresh_A_def fresh_B_def)
  from help_version_short_circuit [OF h1 h2, where s = fresh_A and fs = sample_fs]
    help_version_short_circuit [OF h1 h2, where s = fresh_B and fs = sample_fs]
  show ?thesis
    unfolding fl fi by (simp add: m c v)
qed

text \<open>
  C1 as stated fails on a repeated token: with the arguments \<open>-help -help\<close> no flag other
  than \<open>help\<close> is enabled and there is no positional token, yet both headers return
  \<open>false\<close> with the error instead of printing the help text.
\<close>

theorem help_only_flag_counterexample:
  "filter is_flag_token (drop 1 [''prog'', ''-help'', ''-help'']) = [''-help'', ''-help'']
   \<and> filter is_file_token (drop 1 [''prog'', ''-help'', ''-help'']) = []
   \<and> matches ''-help'' Help
   \<and> fst (parse_A demo sample_fs [''prog'', ''-help'', ''-help''] fresh_A) = Returned False
   \<and> cerr (snd (parse_A demo sample_fs [''prog'', ''-help'', ''-help''] fresh_A)) = [''Error: argument: Too many arguments'']
   \<and> cout (snd (parse_A demo sample_fs [''prog'', ''-help'', ''-help''] fresh_A)) = []
   \<and> fst (parse_B demo sample_fs [''prog'', ''-help'', ''-help''] fresh_B) = Returned False
   \<and> cerr (snd (parse_B demo sample_fs [''prog'', ''-help'', ''-help''] fresh_B)) = [''Error: argument: Too many arguments'']
   \<and> cout (snd (parse_B demo sample_fs [''prog'', ''-help'', ''-help''] fresh_B)) = []
   \<and> flag_on (snd (parse_B demo sample_fs [''prog'', ''-help'', ''-help''] fresh_B)) Translate = False
   \<and> flag_on (snd (parse_B demo sample_fs [''prog'', ''-help'', ''-help''] fresh_B)) Version = False"
  by code_simp

text \<open>
  C2.  \<open>check\<close>, the first statement of \<open>parse\<close>, empties \<open>cmd::source\<close> and
  \<open>cmd::target\<close> and puts every registered flag back to its default: the value it was
  constructed with, \<open>true\<close> for \<open>convert\<close> (and for \<open>translate\<close> in \<open>CmdArgs.h\<close>).
  Nothing that follows can see what the published paths and the registered flags held before
  the call: \<open>parse\<close> gives the same result from any such values.  So a registered flag that
  no argument of the call names reads as its default when the call is over, whatever a
  previous call had set it to.
\<close>

theorem reset_at_start:
  "(cmd_source (snd (check_A cfg s)) = [] \<and> cmd_target (snd (check_A cfg s)) = []
      \<and> (\<forall>f \<in> set (cmd_flags cfg). flag_on (snd (check_A cfg s)) f = initial_on_A f))
   \<and> (cmd_source (snd (check_B cfg s)) = [] \<and> cmd_target (snd (check_B cfg s)) = []
      \<and> (\<forall>f \<in> set (cmd_flags cfg). flag_on (snd (check_B cfg s)) f = defaultOn f))
   \<and> parse_A cfg fs argv (s\<lparr>cmd_source := a, cmd_target := b,
         flag_on := (\<lambda>f. if f \<in> set (cmd_flags cfg) then g f else flag_on s f)\<rparr>)
       = parse_A cfg fs argv s
   \<and> parse_B cfg fs argv (s\<lparr>cmd_source := a, cmd_target := b,
         flag_on := (\<lambda>f. if f \<in> set (cmd_flags cfg) then g f else flag_on s f)\<rparr>)
       = parse_B cfg fs argv s
   \<and> (\<forall>f \<in> set (cmd_flags cfg). (\<forall>a \<in> set (drop 1 argv). \<not> matches a f) \<longrightarrow>
         flag_on (snd (parse_A cfg fs argv s)) f = initial_on_A f)
   \<and> (\<forall>f \<in> set (cmd_flags cfg). (\<forall>a \<in> set (drop 1 argv). \<not> matches a f) \<longrightarrow>
         flag_on (snd (parse_B cfg fs argv s)) f = defaultOn f)"
proof (intro conjI)
  show "\<forall>f \<in> set (cmd_flags cfg). flag_on (snd (check_A cfg s)) f = initial_on_A f"
    by (simp add: check_A_flag)
  show "parse_A cfg fs argv (s\<lparr>cmd_source := a, cmd_target := b,
         flag_on := (\<lambda>f. if f \<in> set (cmd_flags cfg) then g f else flag_on s f)\<rparr>)
       = parse_A cfg fs argv s"
    by (simp only: parse_A_def check_A_indep)
  show "parse_B cfg fs argv (s\<lparr>cmd_source := a, cmd_target := b,
         flag_on := (\<lambda>f. if f \<in> set (cmd_flags cfg) then g f else flag_on s f)\<rparr>)
       = parse_B cfg fs argv s"
    by (simp only: parse_B_def check_B_indep)
qed (simp_all add: check_A_state check_B_state parse_A_untouched parse_B_untouched)

theorem reset_at_start_witness:
  "flag_on (snd (parse_A demo sample_fs [''prog'', ''-help'', ''source.txt''] fresh_A)) Help
   \<and> Help \<in> set (cmd_flags demo)
   \<and> \<not> matches ''source.txt'' Help
   \<and> flag_on (snd (parse_A demo sample_fs [''prog'', ''source.txt'']
        (snd (parse_A demo sample_fs [''prog'', ''-help'', ''source.txt''] fresh_A)))) Help = initial_on_A Help
   \<and> flag_on (snd (parse_B demo sample_fs [''prog'', ''-help'', ''source.txt''] fresh_B)) Help
   \<and> flag_on (snd (parse_B demo sample_fs [''prog'', ''source.txt'']
        (snd (parse_B demo sample_fs [''prog'', ''-help'', ''source.txt''] fresh_B)))) Help = defaultOn Help"
proof -
  have a: "flag_on (snd (parse_A demo sample_fs [''prog'', ''-help'', ''source.txt''] fresh_A)) Help"
    by code_simp
  have b: "flag_on (snd (parse_B demo sample_fs [''prog'', ''-help'', ''source.txt''] fresh_B)) Help"
    by code_simp
  have c: "Help \<in> set (cmd_flags demo)" "\<forall>a \<in> set (drop 1 [''prog'', ''source.txt'']). \<not> matches a Help"
    "\<not> matches ''source.txt'' Help"
    by (simp_all add: demo_def matches_def)
  from a b c
    reset_at_start [of demo "snd (parse_A demo sample_fs [''prog'', ''-help'', ''source.txt''] fresh_A)" sample_fs "[''prog'', ''source.txt'']"]
    reset_at_start [of demo "snd (parse_B demo sample_fs [''prog'', ''-help'', ''source.txt''] fresh_B)" sample_fs "[''prog'', ''source.txt'']"]
  show ?thesis by blast
qed

text \<open>
  C3 against \<open>CmdArgs.h\<close>.  Its directory branch publishes the member \<open>_target\<close>, which
  \<open>check\<close> does not clear.  A parser object that has resolved a target in an earlier call
  therefore publishes that old target in directory mode: after \<open>/home/source.txt\<close>, the
  call with the directory \<open>photos\<close> succeeds with \<open>cmd::target = /home/source.csv\<close>.  The
  later header clears \<open>cmd::target\<close> in this branch, so that there only the member
  \<open>_target\<close> keeps the old value.
\<close>

theorem directory_mode_stale_target:
  "is_directory sample_fs ''photos'' = Some True
   \<and> fst (parse_A demo sample_fs [''prog'', ''/home/source.txt''] fresh_A) = Returned True
   \<and> m_target (snd (parse_A demo sample_fs [''prog'', ''/home/source.txt''] fresh_A)) = ''/home/source.csv''
   \<and> fst (parse_A demo sample_fs [''prog'', ''photos'']
        (snd (parse_A demo sample_fs [''prog'', ''/home/source.txt''] fresh_A))) = Returned True
   \<and> cmd_source (snd (parse_A demo sample_fs [''prog'', ''photos'']
        (snd (parse_A demo sample_fs [''prog'', ''/home/source.txt''] fresh_A)))) = ''photos''
   \<and> cmd_target (snd (parse_A demo sample_fs [''prog'', ''photos'']
        (snd (parse_A demo sample_fs [''prog'', ''/home/source.txt''] fresh_A)))) = ''/home/source.csv''
   \<and> fst (parse_B demo sample_fs [''prog'', ''photos'']
        (snd (parse_B demo sample_fs [''prog'', ''/home/source.txt''] fresh_B))) = Returned True
   \<and> cmd_target (snd (parse_B demo sample_fs [''prog'', ''photos'']
        (snd (parse_B demo sample_fs [''prog'', ''/home/source.txt''] fresh_B)))) = []
   \<and> m_target (snd (parse_B demo sample_fs [''prog'', ''photos'']
        (snd (parse_B demo sample_fs [''prog'', ''/home/source.txt''] fresh_B)))) = ''/home/source.csv''"
  by code_simp

text \<open>
  C4, as the code has it.  Take a call that reaches \<open>parseFiles\<close> with one or two
  positional tokens.  When \<open>is_directory\<close> answers that the first is no directory, the later
  header puts a token without a directory part under the current working directory, and
  that path is \<open>_source\<close>; \<open>CmdArgs.h\<close> keeps the token as it is.  If \<open>exists\<close> answers
  that \<open>_source\<close> is not there, the call fails with \<open>Could not find the source file\<close> and
  the token; if it is there and its extension, in lower case and without the period, is not
  in \<open>source_ext\<close>, the call fails with \<open>Source file is not a valid extension:\<close> and
  \<open>_source\<close>.  A call that succeeds publishes \<open>_source\<close>, which then exists and has a
  listed extension.  Where one of the queries throws, so does \<open>parse\<close>, and no error line
  is written.
\<close>

theorem source_file_checks:
  assumes "passes_flags cfg argv" and "filter is_file_token (drop 1 argv) = tok # rest"
    and "length rest \<le> 1"
  shows "(fst (check_B cfg s) = None \<longrightarrow>
      (is_directory fs tok = Some False \<and> anchor_B fs tok = Some src \<longrightarrow>
         (if parent_path tok = [] then \<exists>cwd. current_path fs = Some cwd \<and> src = path_append cwd tok
          else src = tok)
         \<and> m_source (snd (parse_B cfg fs argv s)) = src
         \<and> (exists fs src = Some False \<longrightarrow>
               fst (parse_B cfg fs argv s) = Returned False
               \<and> cerr (snd (parse_B cfg fs argv s)) =
                   cerr s @ [''Error: Could not find the source file '' @ tok])
         \<and> (exists fs src = Some True \<and> getExtension src \<notin> set (source_ext cfg) \<longrightarrow>
               fst (parse_B cfg fs argv s) = Returned False
               \<and> cerr (snd (parse_B cfg fs argv s)) =
                   cerr s @ [''Error: Source file is not a valid extension: '' @ src])
         \<and> (exists fs src = None \<longrightarrow>
               fst (parse_B cfg fs argv s) = Threw Filesystem_error
               \<and> cerr (snd (parse_B cfg fs argv s)) = cerr s)
         \<and> (fst (parse_B cfg fs argv s) = Returned True \<longrightarrow>
               exists fs src = Some True \<and> getExtension src \<in> set (source_ext cfg)
               \<and> cmd_source (snd (parse_B cfg fs argv s)) = src))
      \<and> (is_directory fs tok = None
       \<or> (is_directory fs tok = Some False \<and> anchor_B fs tok = None) \<longrightarrow>
         fst (parse_B cfg fs argv s) = Threw Filesystem_error
         \<and> cerr (snd (parse_B cfg fs argv s)) = cerr s))
   \<and> (fst (check_A cfg s) = None \<longrightarrow>
      (is_directory fs tok = Some False \<longrightarrow>
         m_source (snd (parse_A cfg fs argv s)) = tok
         \<and> (exists fs tok = Some False \<longrightarrow>
               fst (parse_A cfg fs argv s) = Returned False
               \<and> cerr (snd (parse_A cfg fs argv s)) =
                   cerr s @ [''Error: Could not find the source file '' @ tok])
         \<and> (exists fs tok = Some True \<and> getExtension tok \<notin> set (source_ext cfg) \<longrightarrow>
               fst (parse_A cfg fs argv s) = Returned False
               \<and> cerr (snd (parse_A cfg fs argv s)) =
                   cerr s @ [''Error: Source file is not a valid extension: '' @ tok])
         \<and> (exists fs tok = None \<longrightarrow>
               fst (parse_A cfg fs argv s) = Threw Filesystem_error
               \<and> cerr (snd (parse_A cfg fs argv s)) = cerr s)
         \<and> (fst (parse_A cfg fs argv s) = Returned True \<longrightarrow>
               exists fs tok = Some True \<and> getExtension tok \<in> set (source_ext cfg)
               \<and> cmd_source (snd (parse_A cfg fs argv s)) = tok))
      \<and> (is_directory fs tok = None \<longrightarrow>
         fst (parse_A cfg fs argv s) = Threw Filesystem_error
         \<and> cerr (snd (parse_A cfg fs argv s)) = cerr s))"
proof (rule conjI; rule impI; rule conjI; rule impI)
  assume ck: "fst (check_B cfg s) = None"
    and q: "is_directory fs tok = Some False \<and> anchor_B fs tok = Some src"
  from parse_B_reaches [OF ck assms(1), of fs] assms(2) obtain s1 where
    p: "parse_B cfg fs argv s = parseFiles_B cfg fs (tok # rest) s1" and s1: "cerr s1 = cerr s"
    by auto
  from q have d: "is_directory fs tok = Some False" and a: "anchor_B fs tok = Some src"
    by simp_all
  have anchored: "if parent_path tok = [] then \<exists>cwd. current_path fs = Some cwd \<and> src = path_append cwd tok
          else src = tok"
    using a by (auto simp: anchor_B_def split: option.splits)
  have "m_source (snd (parse_B cfg fs argv s)) = src
    \<and> (exists fs src = Some False \<longrightarrow>
          fst (parse_B cfg fs argv s) = Returned False
          \<and> cerr (snd (parse_B cfg fs argv s)) =
              cerr s @ [''Error: Could not find the source file '' @ tok])
    \<and> (exists fs src = Some True \<and> getExtension src \<notin> set (source_ext cfg) \<longrightarrow>
          fst (parse_B cfg fs argv s) = Returned False
          \<and> cerr (snd (parse_B cfg fs argv s)) =
              cerr s @ [''Error: Source file is not a valid extension: '' @ src])
    \<and> (exists fs src = None \<longrightarrow>
          fst (parse_B cfg fs argv s) = Threw Filesystem_error
          \<and> cerr (snd (parse_B cfg fs argv s)) = cerr s)
    \<and> (fst (parse_B cfg fs argv s) = Returned True \<longrightarrow>
          exists fs src = Some True \<and> getExtension src \<in> set (source_ext cfg)
          \<and> cmd_source (snd (parse_B cfg fs argv s)) = src)"
    unfolding p parseFiles_B_file_mode [OF assms(3) d a]
    by (simp add: err_def s1 split: prod.split option.split block_end.split)
  with anchored show "(if parent_path tok = [] then \<exists>cwd. current_path fs = Some cwd \<and> src = path_append cwd tok
          else src = tok)
         \<and> m_source (snd (parse_B cfg fs argv s)) = src
         \<and> (exists fs src = Some False \<longrightarrow>
               fst (parse_B cfg fs argv s) = Returned False
               \<and> cerr (snd (parse_B cfg fs argv s)) =
                   cerr s @ [''Error: Could not find the source file '' @ tok])
         \<and> (exists fs src = Some True \<and> getExtension src \<notin> set (source_ext cfg) \<longrightarrow>
               fst (parse_B cfg fs argv s) = Returned False
               \<and> cerr (snd (parse_B cfg fs argv s)) =
                   cerr s @ [''Error: Source file is not a valid extension: '' @ src])
         \<and> (exists fs src = None \<longrightarrow>
               fst (parse_B cfg fs argv s) = Threw Filesystem_error
               \<and> cerr (snd (parse_B cfg fs argv s)) = cerr s)
         \<and> (fst (parse_B cfg fs argv s) = Returned True \<longrightarrow>
               exists fs src = Some True \<and> getExtension src \<in> set (source_ext cfg)
               \<and> cmd_source (snd (parse_B cfg fs argv s)) = src)"
    by (rule conjI)
next
  assume ck: "fst (check_B cfg s) = None"
    and q: "is_directory fs tok = None
       \<or> (is_directory fs tok = Some False \<and> anchor_B fs tok = None)"
  from parse_B_reaches [OF ck assms(1), of fs] assms(2) obtain s1 where
    p: "parse_B cfg fs argv s = parseFiles_B cfg fs (tok # rest) s1" and s1: "cerr s1 = cerr s"
    by auto
  show "fst (parse_B cfg fs argv s) = Threw Filesystem_error
    \<and> cerr (snd (parse_B cfg fs argv s)) = cerr s"
    unfolding p parseFiles_B_refused [OF assms(3) q] by (simp add: s1)
next
  assume ck: "fst (check_A cfg s) = None" and d: "is_directory fs tok = Some False"
  from parse_A_reaches [OF ck assms(1), of fs] assms(2) obtain s1 where
    p: "parse_A cfg fs argv s = parseFiles_A cfg fs (tok # rest) s1" and s1: "cerr s1 = cerr s"
    by auto
  show "m_source (snd (parse_A cfg fs argv s)) = tok
    \<and> (exists fs tok = Some False \<longrightarrow>
          fst (parse_A cfg fs argv s) = Returned False
          \<and> cerr (snd (parse_A cfg fs argv s)) =
              cerr s @ [''Error: Could not find the source file '' @ tok])
    \<and> (exists fs tok = Some True \<and> getExtension tok \<notin> set (source_ext cfg) \<longrightarrow>
          fst (parse_A cfg fs argv s) = Returned False
          \<and> cerr (snd (parse_A cfg fs argv s)) =
              cerr s @ [''Error: Source file is not a valid extension: '' @ tok])
    \<and> (exists fs tok = None \<longrightarrow>
          fst (parse_A cfg fs argv s) = Threw Filesystem_error
          \<and> cerr (snd (parse_A cfg fs argv s)) = cerr s)
    \<and> (fst (parse_A cfg fs argv s) = Returned True \<longrightarrow>
          exists fs tok = Some True \<and> getExtension tok \<in> set (source_ext cfg)
          \<and> cmd_source (snd (parse_A cfg fs argv s)) = tok)"
    unfolding p parseFiles_A_file_mode [OF assms(3) d]
    by (simp add: err_def s1 split: prod.split option.split block_end.split)
next
  assume ck: "fst (check_A cfg s) = None" and q: "is_directory fs tok = None"
  from parse_A_reaches [OF ck assms(1), of fs] assms(2) obtain s1 where
    p: "parse_A cfg fs argv s = parseFiles_A cfg fs (tok # rest) s1" and s1: "cerr s1 = cerr s"
    by auto
  show "fst (parse_A cfg fs argv s) = Threw Filesystem_error
    \<and> cerr (snd (parse_A cfg fs argv s)) = cerr s"
    unfolding p parseFiles_A_refused [OF assms(3) q] by (simp add: s1)
qed

theorem source_file_checks_witness:
  "passes_flags demo [''prog'', ''a.jpg'']
   \<and> filter is_file_token (drop 1 [''prog'', ''a.jpg'']) = [''a.jpg'']
   \<and> is_directory sample_fs ''a.jpg'' = Some False
   \<and> fst (check_B demo fresh_B) = None
   \<and> anchor_B sample_fs ''a.jpg'' = Some ''/home/a.jpg''
   \<and> exists sample_fs ''/home/a.jpg'' = Some True
   \<and> getExtension ''/home/a.jpg'' \<notin> set (source_ext demo)
   \<and> m_source (snd (parse_B demo sample_fs [''prog'', ''a.jpg''] fresh_B)) = ''/home/a.jpg''
   \<and> fst (parse_B demo sample_fs [''prog'', ''a.jpg''] fresh_B) = Returned False
   \<and> cerr (snd (parse_B demo sample_fs [''prog'', ''a.jpg''] fresh_B)) =
       [''Error: Source file is not a valid extension: /home/a.jpg'']
   \<and> fst (check_A demo fresh_A) = None
   \<and> exists sample_fs ''a.jpg'' = Some True
   \<and> getExtension ''a.jpg'' \<notin> set (source_ext demo)
   \<and> m_source (snd (parse_A demo sample_fs [''prog'', ''a.jpg''] fresh_A)) = ''a.jpg''
   \<and> fst (parse_A demo sample_fs [''prog'', ''a.jpg''] fresh_A) = Returned False
   \<and> cerr (snd (parse_A demo sample_fs [''prog'', ''a.jpg''] fresh_A)) =
       [''Error: Source file is not a valid extension: a.jpg'']
   \<and> passes_flags demo [''prog'', ''/locked/in.txt'']
   \<and> filter is_file_token (drop 1 [''prog'', ''/locked/in.txt'']) = [''/locked/in.txt'']
   \<and> is_directory sample_fs ''/locked/in.txt'' = None
   \<and> fst (parse_B demo sample_fs [''prog'', ''/locked/in.txt''] fresh_B) = Threw Filesystem_error
   \<and> fst (parse_A demo sample_fs [''prog'', ''/locked/in.txt''] fresh_A) = Threw Filesystem_error"
proof -
  have h: "passes_flags demo [''prog'', ''a.jpg'']"
    "filter is_file_token (drop 1 [''prog'', ''a.jpg'']) = [''a.jpg'']"
    "length ([] :: string list) \<le> 1"
    by code_simp+
  have h': "passes_flags demo [''prog'', ''/locked/in.txt'']"
    "filter is_file_token (drop 1 [''prog'', ''/locked/in.txt'']) = [''/locked/in.txt'']"
    "length ([] :: string list) \<le> 1"
    by code_simp+
  have e: "is_directory sample_fs ''a.jpg'' = Some False"
    "fst (check_B demo fresh_B) = None"
    "anchor_B sample_fs ''a.jpg'' = Some ''/home/a.jpg''"
    "exists sample_fs ''/home/a.jpg'' = Some True"
    "getExtension ''/home/a.jpg'' \<notin> set (source_ext demo)"
    "cerr fresh_B = []"
    "fst (check_A demo fresh_A) = None"
    "exists sample_fs ''a.jpg'' = Some True"
    "getExtension ''a.jpg'' \<notin> set (source_ext demo)"
    "cerr fresh_A = []"
    "is_directory sample_fs ''/locked/in.txt'' = None"
    by code_simp+
  from source_file_checks [OF h, of fresh_B sample_fs "''/home/a.jpg''"]
    source_file_checks [OF h, of fresh_A sample_fs "''/home/a.jpg''"]
    source_file_checks [OF h', of fresh_B sample_fs "''/locked/in.txt''"]
    source_file_checks [OF h', of fresh_A sample_fs "''/locked/in.txt''"] h h' e
  show ?thesis
    by simp
qed

text \<open>
  C4 as stated fails in two ways.  \<open>CmdArgs.h\<close> never consults the current working
  directory: for the token \<open>a.jpg\<close> the error names \<open>a.jpg\<close>, not \<open>/home/a.jpg\<close>, and for
  \<open>source.txt\<close> the published source is \<open>source.txt\<close>.  And in both headers a token about
  which the file system refuses to answer makes \<open>parse\<close> throw instead of reporting that the
  source file could not be found.
\<close>

theorem source_not_anchored_counterexample:
  "parent_path ''a.jpg'' = []
   \<and> current_path sample_fs = Some ''/home''
   \<and> path_append ''/home'' ''a.jpg'' = ''/home/a.jpg''
   \<and> is_directory sample_fs ''a.jpg'' = Some False
   \<and> m_source (snd (parse_A demo sample_fs [''prog'', ''a.jpg''] fresh_A)) = ''a.jpg''
   \<and> fst (parse_A demo sample_fs [''prog'', ''a.jpg''] fresh_A) = Returned False
   \<and> cerr (snd (parse_A demo sample_fs [''prog'', ''a.jpg''] fresh_A)) =
       [''Error: Source file is not a valid extension: a.jpg'']
   \<and> parent_path ''source.txt'' = []
   \<and> fst (parse_A demo sample_fs [''prog'', ''source.txt''] fresh_A) = Returned True
   \<and> cmd_source (snd (parse_A demo sample_fs [''prog'', ''source.txt''] fresh_A)) = ''source.txt''
   \<and> is_directory sample_fs ''/locked/in.txt'' = None
   \<and> exists sample_fs ''/locked/in.txt'' = None
   \<and> fst (parse_B demo sample_fs [''prog'', ''/locked/in.txt''] fresh_B) = Threw Filesystem_error
   \<and> cerr (snd (parse_B demo sample_fs [''prog'', ''/locked/in.txt''] fresh_B)) = []
   \<and> fst (parse_A demo sample_fs [''prog'', ''/locked/in.txt''] fresh_A) = Threw Filesystem_error
   \<and> cerr (snd (parse_A demo sample_fs [''prog'', ''/locked/in.txt''] fresh_A)) = []"
  by code_simp

text \<open>
  C5.  Take a call that reaches \<open>parseFiles\<close> with a single positional token that is not
  an existing directory, and whose source path exists with a listed extension.  Then
  \<open>_target\<close> is the source path with its extension replaced by the first entry of
  \<open>target_ext\<close>, and that is what a successful call publishes as \<open>cmd::target\<close>, next to
  the source path as \<open>cmd::source\<close>.  When that first entry is a plain extension and the
  source path ends in a file name, the target has the stem of the source and the first entry
  as its extension, and the call succeeds unless source and target are the same string up to
  case.
\<close>

theorem default_target:
  assumes "passes_flags cfg argv" and "filter is_file_token (drop 1 argv) = [tok]"
    and "is_directory fs tok = Some False"
  shows "(fst (check_B cfg s) = None \<and> anchor_B fs tok = Some src \<longrightarrow>
      (let tgt = replace_extension src (hd (target_ext cfg))
       in exists fs src = Some True \<and> getExtension src \<in> set (source_ext cfg) \<longrightarrow>
          m_target (snd (parse_B cfg fs argv s)) = tgt
          \<and> (fst (parse_B cfg fs argv s) = Returned True \<longrightarrow>
                cmd_source (snd (parse_B cfg fs argv s)) = src
                \<and> cmd_target (snd (parse_B cfg fs argv s)) = tgt)
          \<and> (plain_ext (hd (target_ext cfg)) \<and> filename src \<noteq> [] \<longrightarrow>
                stem tgt = stem src
                \<and> extension tgt = CHR ''.'' # hd (target_ext cfg)
                \<and> getExtension tgt = hd (target_ext cfg)
                \<and> (fst (parse_B cfg fs argv s) = Returned True \<longleftrightarrow> tolower src \<noteq> tolower tgt))))
   \<and> (fst (check_A cfg s) = None \<longrightarrow>
      (let src = tok;
           tgt = replace_extension src (hd (target_ext cfg))
       in exists fs src = Some True \<and> getExtension src \<in> set (source_ext cfg) \<longrightarrow>
          m_target (snd (parse_A cfg fs argv s)) = tgt
          \<and> (fst (parse_A cfg fs argv s) = Returned True \<longrightarrow>
                cmd_source (snd (parse_A cfg fs argv s)) = src
                \<and> cmd_target (snd (parse_A cfg fs argv s)) = tgt)
          \<and> (plain_ext (hd (target_ext cfg)) \<and> filename src \<noteq> [] \<longrightarrow>
                stem tgt = stem src
                \<and> extension tgt = CHR ''.'' # hd (target_ext cfg)
                \<and> getExtension tgt = hd (target_ext cfg)
                \<and> (fst (parse_A cfg fs argv s) = Returned True \<longleftrightarrow> tolower src \<noteq> tolower tgt))))"
proof (rule conjI; rule impI)
  assume "fst (check_B cfg s) = None \<and> anchor_B fs tok = Some src"
  then have ck: "fst (check_B cfg s) = None" and a: "anchor_B fs tok = Some src" by simp_all
  define tgt where "tgt = replace_extension src (hd (target_ext cfg))"
  from parse_B_reaches [OF ck assms(1), of fs] assms(2) obtain s1 where
    p: "parse_B cfg fs argv s = parseFiles_B cfg fs (tok # []) s1"
    by auto
  have len: "length ([] :: string list) \<le> 1" by simp
  from ck have mem: "hd (target_ext cfg) \<in> set (target_ext cfg)"
    by (simp add: check_B_None)
  have plain: "stem tgt = stem src \<and> extension tgt = CHR ''.'' # hd (target_ext cfg)
      \<and> getExtension tgt = hd (target_ext cfg)"
    if "plain_ext (hd (target_ext cfg))" "filename src \<noteq> []"
    using replace_extension_plain [OF that] by (simp add: tgt_def)
  have "exists fs src = Some True \<and> getExtension src \<in> set (source_ext cfg) \<longrightarrow>
    m_target (snd (parse_B cfg fs argv s)) = tgt
    \<and> (fst (parse_B cfg fs argv s) = Returned True \<longrightarrow>
          cmd_source (snd (parse_B cfg fs argv s)) = src
          \<and> cmd_target (snd (parse_B cfg fs argv s)) = tgt)
    \<and> (plain_ext (hd (target_ext cfg)) \<and> filename src \<noteq> [] \<longrightarrow>
          stem tgt = stem src
          \<and> extension tgt = CHR ''.'' # hd (target_ext cfg)
          \<and> getExtension tgt = hd (target_ext cfg)
          \<and> (fst (parse_B cfg fs argv s) = Returned True \<longleftrightarrow> tolower src \<noteq> tolower tgt))"
    unfolding p parseFiles_B_file_mode [OF len assms(3) a] defaultTargetExt_B [OF ck]
      tgt_def [symmetric]
    using plain mem by (auto simp: err_def)
  then show "let tgt = replace_extension src (hd (target_ext cfg))
       in exists fs src = Some True \<and> getExtension src \<in> set (source_ext cfg) \<longrightarrow>
          m_target (snd (parse_B cfg fs argv s)) = tgt
          \<and> (fst (parse_B cfg fs argv s) = Returned True \<longrightarrow>
                cmd_source (snd (parse_B cfg fs argv s)) = src
                \<and> cmd_target (snd (parse_B cfg fs argv s)) = tgt)
          \<and> (plain_ext (hd (target_ext cfg)) \<and> filename src \<noteq> [] \<longrightarrow>
                stem tgt = stem src
                \<and> extension tgt = CHR ''.'' # hd (target_ext cfg)
                \<and> getExtension tgt = hd (target_ext cfg)
                \<and> (fst (parse_B cfg fs argv s) = Returned True \<longleftrightarrow> tolower src \<noteq> tolower tgt))"
    unfolding Let_def tgt_def .
next
  assume ck: "fst (check_A cfg s) = None"
  define src where "src = tok"
  define tgt where "tgt = replace_extension src (hd (target_ext cfg))"
  from parse_A_reaches [OF ck assms(1), of fs] assms(2) obtain s1 where
    p: "parse_A cfg fs argv s = parseFiles_A cfg fs (tok # []) s1"
    by auto
  have len: "length ([] :: string list) \<le> 1" by simp
  have plain: "stem tgt = stem src \<and> extension tgt = CHR ''.'' # hd (target_ext cfg)
      \<and> getExtension tgt = hd (target_ext cfg)"
    if "plain_ext (hd (target_ext cfg))" "filename src \<noteq> []"
    using replace_extension_plain [OF that] by (simp add: tgt_def)
  have "exists fs src = Some True \<and> getExtension src \<in> set (source_ext cfg) \<longrightarrow>
    m_target (snd (parse_A cfg fs argv s)) = tgt
    \<and> (fst (parse_A cfg fs argv s) = Returned True \<longrightarrow>
          cmd_source (snd (parse_A cfg fs argv s)) = src
          \<and> cmd_target (snd (parse_A cfg fs argv s)) = tgt)
    \<and> (plain_ext (hd (target_ext cfg)) \<and> filename src \<noteq> [] \<longrightarrow>
          stem tgt = stem src
          \<and> extension tgt = CHR ''.'' # hd (target_ext cfg)
          \<and> getExtension tgt = hd (target_ext cfg)
          \<and> (fst (parse_A cfg fs argv s) = Returned True \<longleftrightarrow> tolower src \<noteq> tolower tgt))"
    unfolding p parseFiles_A_file_mode [OF len assms(3)] defaultTargetExt_A [OF ck]
      tgt_def src_def
    using plain by (auto simp: err_def tgt_def src_def)
  then show "let src = tok;
           tgt = replace_extension src (hd (target_ext cfg))
       in exists fs src = Some True \<and> getExtension src \<in> set (source_ext cfg) \<longrightarrow>
          m_target (snd (parse_A cfg fs argv s)) = tgt
          \<and> (fst (parse_A cfg fs argv s) = Returned True \<longrightarrow>
                cmd_source (snd (parse_A cfg fs argv s)) = src
                \<and> cmd_target (snd (parse_A cfg fs argv s)) = tgt)
          \<and> (plain_ext (hd (target_ext cfg)) \<and> filename src \<noteq> [] \<longrightarrow>
                stem tgt = stem src
                \<and> extension tgt = CHR ''.'' # hd (target_ext cfg)
                \<and> getExtension tgt = hd (target_ext cfg)
                \<and> (fst (parse_A cfg fs argv s) = Returned True \<longleftrightarrow> tolower src \<noteq> tolower tgt))"
    unfolding Let_def src_def tgt_def .
qed

theorem default_target_witness:
  "passes_flags demo [''prog'', ''source.txt'']
   \<and> filter is_file_token (drop 1 [''prog'', ''source.txt'']) = [''source.txt'']
   \<and> is_directory sample_fs ''source.txt'' = Some False
   \<and> fst (check_B demo fresh_B) = None
   \<and> anchor_B sample_fs ''source.txt'' = Some ''/home/source.txt''
   \<and> exists sample_fs ''/home/source.txt'' = Some True
   \<and> getExtension ''/home/source.txt'' \<in> set (source_ext demo)
   \<and> plain_ext (hd (target_ext demo))
   \<and> fst (parse_B demo sample_fs [''prog'', ''source.txt''] fresh_B) = Returned True
   \<and> cmd_source (snd (parse_B demo sample_fs [''prog'', ''source.txt''] fresh_B)) = ''/home/source.txt''
   \<and> cmd_target (snd (parse_B demo sample_fs [''prog'', ''source.txt''] fresh_B)) = ''/home/source.csv''
   \<and> stem ''/home/source.csv'' = stem ''/home/source.txt''
   \<and> getExtension ''/home/source.csv'' = ''csv''
   \<and> fst (check_A demo fresh_A) = None
   \<and> exists sample_fs ''source.txt'' = Some True
   \<and> getExtension ''source.txt'' \<in> set (source_ext demo)
   \<and> fst (parse_A demo sample_fs [''prog'', ''source.txt''] fresh_A) = Returned True
   \<and> cmd_source (snd (parse_A demo sample_fs [''prog'', ''source.txt''] fresh_A)) = ''source.txt''
   \<and> cmd_target (snd (parse_A demo sample_fs [''prog'', ''source.txt''] fresh_A)) = ''source.csv''
   \<and> stem ''source.csv'' = stem ''source.txt''
   \<and> getExtension ''source.csv'' = ''csv''"
proof -
  have h: "passes_flags demo [''prog'', ''source.txt'']"
    "filter is_file_token (drop 1 [''prog'', ''source.txt'']) = [''source.txt'']"
    "is_directory sample_fs ''source.txt'' = Some False"
    by code_simp+
  have e: "fst (check_B demo fresh_B) = None"
    "anchor_B sample_fs ''source.txt'' = Some ''/home/source.txt''"
    "exists sample_fs ''/home/source.txt'' = Some True"
    "getExtension ''/home/source.txt'' \<in> set (source_ext demo)"
    "plain_ext (hd (target_ext demo))"
    "hd (target_ext demo) = ''csv''"
    "filename ''/home/source.txt'' \<noteq> []"
    "replace_extension ''/home/source.txt'' ''csv'' = ''/home/source.csv''"
    "tolower ''/home/source.txt'' \<noteq> tolower ''/home/source.csv''"
    "fst (check_A demo fresh_A) = None"
    "exists sample_fs ''source.txt'' = Some True"
    "getExtension ''source.txt'' \<in> set (source_ext demo)"
    "filename ''source.txt'' \<noteq> []"
    "replace_extension ''source.txt'' ''csv'' = ''source.csv''"
    "tolower ''source.txt'' \<noteq> tolower ''source.csv''"
    by code_simp+
  from default_target [OF h, of fresh_B "''/home/source.txt''"]
    default_target [OF h, of fresh_A "''/home/source.txt''"] h e show ?thesis
    by (simp add: Let_def)
qed

text \<open>
  C6, as the code has it.  Take a call that reaches \<open>parseFiles\<close> with two positional
  tokens and a valid source file.  A second token without a directory part is placed in the
  directory of the source.  If \<open>is_directory\<close> answers that the parent of the resulting
  target path is no directory, the call fails.  In the later header (with the current
  working directory not empty, as \<open>current_path()\<close> returns an absolute path) the message is
  \<open>Target file has unknown directory\<close> when the token has an extension and
  \<open>Target directory does not exist\<close> when it has none.  In \<open>CmdArgs.h\<close> it is
  \<open>Target file has unknown directory\<close> in both cases.  Where that query throws, so does
  \<open>parse\<close>, and no error line is written.
\<close>

theorem missing_target_directory:
  assumes "passes_flags cfg argv" and "filter is_file_token (drop 1 argv) = [tok, tok2]"
    and "is_directory fs tok = Some False"
  shows "(fst (check_B cfg s) = None \<and> current_path fs \<noteq> Some [] \<and> anchor_B fs tok = Some src \<longrightarrow>
      (let tgt = (if parent_path tok2 = [] then path_append (parent_path src) tok2 else tok2)
       in exists fs src = Some True \<and> getExtension src \<in> set (source_ext cfg) \<longrightarrow>
          (is_directory fs (parent_path tgt) = Some False \<longrightarrow>
             fst (parse_B cfg fs argv s) = Returned False
             \<and> cerr (snd (parse_B cfg fs argv s)) =
                 cerr s @ [if has_extension tok2
                          then ''Error: Target file has unknown directory '' @ tgt
                          else ''Error: Target directory does not exist '' @ tgt])
          \<and> (is_directory fs (parent_path tgt) = None \<longrightarrow>
             fst (parse_B cfg fs argv s) = Threw Filesystem_error
             \<and> cerr (snd (parse_B cfg fs argv s)) = cerr s)))
   \<and> (fst (check_A cfg s) = None \<longrightarrow>
      (let src = tok;
           tgt = (if parent_path tok2 = [] then path_append (parent_path src) (filename tok2)
                  else tok2)
       in exists fs src = Some True \<and> getExtension src \<in> set (source_ext cfg) \<longrightarrow>
          (is_directory fs (parent_path tgt) = Some False \<longrightarrow>
             fst (parse_A cfg fs argv s) = Returned False
             \<and> cerr (snd (parse_A cfg fs argv s)) =
                 cerr s @ [''Error: Target file has unknown directory '' @ tgt])
          \<and> (is_directory fs (parent_path tgt) = None \<longrightarrow>
             fst (parse_A cfg fs argv s) = Threw Filesystem_error
             \<and> cerr (snd (parse_A cfg fs argv s)) = cerr s)))"
proof (rule conjI; rule impI)
  assume "fst (check_B cfg s) = None \<and> current_path fs \<noteq> Some [] \<and> anchor_B fs tok = Some src"
  then have ck: "fst (check_B cfg s) = None" and cwd: "current_path fs \<noteq> Some []"
    and a: "anchor_B fs tok = Some src"
    by simp_all
  define tgt where "tgt = (if parent_path tok2 = [] then path_append (parent_path src) tok2 else tok2)"
  from parse_B_reaches [OF ck assms(1), of fs] assms(2) obtain s1 where
    p: "parse_B cfg fs argv s = parseFiles_B cfg fs (tok # [tok2]) s1" and s1: "cerr s1 = cerr s"
    by auto
  have len: "length [tok2] \<le> 1" by simp
  have par: "parent_path src \<noteq> []"
    by (rule anchored_parent [OF a cwd])
  have "exists fs src = Some True \<and> getExtension src \<in> set (source_ext cfg) \<longrightarrow>
    (is_directory fs (parent_path tgt) = Some False \<longrightarrow>
       fst (parse_B cfg fs argv s) = Returned False
       \<and> cerr (snd (parse_B cfg fs argv s)) =
           cerr s @ [if has_extension tok2
                    then ''Error: Target file has unknown directory '' @ tgt
                    else ''Error: Target directory does not exist '' @ tgt])
    \<and> (is_directory fs (parent_path tgt) = None \<longrightarrow>
       fst (parse_B cfg fs argv s) = Threw Filesystem_error
       \<and> cerr (snd (parse_B cfg fs argv s)) = cerr s)"
  proof (intro impI conjI)
    assume v: "exists fs src = Some True \<and> getExtension src \<in> set (source_ext cfg)"
      and nd: "is_directory fs (parent_path tgt) = Some False"
    show "fst (parse_B cfg fs argv s) = Returned False"
      unfolding p parseFiles_B_file_mode [OF len assms(3) a]
        explicit_target_B_missing_parent [OF par tgt_def nd]
      using v by (simp add: err_def)
    show "cerr (snd (parse_B cfg fs argv s)) =
       cerr s @ [if has_extension tok2
                then ''Error: Target file has unknown directory '' @ tgt
                else ''Error: Target directory does not exist '' @ tgt]"
      unfolding p parseFiles_B_file_mode [OF len assms(3) a]
        explicit_target_B_missing_parent [OF par tgt_def nd]
      using v by (simp add: err_def s1)
  next
    assume v: "exists fs src = Some True \<and> getExtension src \<in> set (source_ext cfg)"
      and nd: "is_directory fs (parent_path tgt) = None"
    show "fst (parse_B cfg fs argv s) = Threw Filesystem_error"
      unfolding p parseFiles_B_file_mode [OF len assms(3) a]
        explicit_target_B_refused_parent [OF par tgt_def nd]
      using v by simp
    show "cerr (snd (parse_B cfg fs argv s)) = cerr s"
      unfolding p parseFiles_B_file_mode [OF len assms(3) a]
        explicit_target_B_refused_parent [OF par tgt_def nd]
      using v by (simp add: s1)
  qed
  then show "let tgt = (if parent_path tok2 = [] then path_append (parent_path src) tok2 else tok2)
       in exists fs src = Some True \<and> getExtension src \<in> set (source_ext cfg) \<longrightarrow>
          (is_directory fs (parent_path tgt) = Some False \<longrightarrow>
             fst (parse_B cfg fs argv s) = Returned False
             \<and> cerr (snd (parse_B cfg fs argv s)) =
                 cerr s @ [if has_extension tok2
                          then ''Error: Target file has unknown directory '' @ tgt
                          else ''Error: Target directory does not exist '' @ tgt])
          \<and> (is_directory fs (parent_path tgt) = None \<longrightarrow>
             fst (parse_B cfg fs argv s) = Threw Filesystem_error
             \<and> cerr (snd (parse_B cfg fs argv s)) = cerr s)"
    unfolding Let_def tgt_def .
next
  assume ck: "fst (check_A cfg s) = None"
  define src where "src = tok"
  define tgt where "tgt = (if parent_path tok2 = [] then path_append (parent_path src) (filename tok2)
                  else tok2)"
  from parse_A_reaches [OF ck assms(1), of fs] assms(2) obtain s1 where
    p: "parse_A cfg fs argv s = parseFiles_A cfg fs (tok # [tok2]) s1" and s1: "cerr s1 = cerr s"
    by auto
  have len: "length [tok2] \<le> 1" by simp
  have "exists fs src = Some True \<and> getExtension src \<in> set (source_ext cfg) \<longrightarrow>
    (is_directory fs (parent_path tgt) = Some False \<longrightarrow>
       fst (parse_A cfg fs argv s) = Returned False
       \<and> cerr (snd (parse_A cfg fs argv s)) =
           cerr s @ [''Error: Target file has unknown directory '' @ tgt])
    \<and> (is_directory fs (parent_path tgt) = None \<longrightarrow>
       fst (parse_A cfg fs argv s) = Threw Filesystem_error
       \<and> cerr (snd (parse_A cfg fs argv s)) = cerr s)"
    unfolding p parseFiles_A_file_mode [OF len assms(3)] src_def
      explicit_target_A_eq [OF tgt_def [unfolded src_def]]
    by (simp add: err_def s1)
  then show "let src = tok;
           tgt = (if parent_path tok2 = [] then path_append (parent_path src) (filename tok2)
                  else tok2)
       in exists fs src = Some True \<and> getExtension src \<in> set (source_ext cfg) \<longrightarrow>
          (is_directory fs (parent_path tgt) = Some False \<longrightarrow>
             fst (parse_A cfg fs argv s) = Returned False
             \<and> cerr (snd (parse_A cfg fs argv s)) =
                 cerr s @ [''Error: Target file has unknown directory '' @ tgt])
          \<and> (is_directory fs (parent_path tgt) = None \<longrightarrow>
             fst (parse_A cfg fs argv s) = Threw Filesystem_error
             \<and> cerr (snd (parse_A cfg fs argv s)) = cerr s)"
    unfolding Let_def src_def tgt_def .
qed

theorem missing_target_directory_witness:
  "passes_flags demo [''prog'', ''source.txt'', ''nodir/out'']
   \<and> filter is_file_token (drop 1 [''prog'', ''source.txt'', ''nodir/out'']) = [''source.txt'', ''nodir/out'']
   \<and> is_directory sample_fs ''source.txt'' = Some False
   \<and> fst (check_B demo fresh_B) = None \<and> current_path sample_fs \<noteq> Some []
   \<and> anchor_B sample_fs ''source.txt'' = Some ''/home/source.txt''
   \<and> exists sample_fs ''/home/source.txt'' = Some True
   \<and> getExtension ''/home/source.txt'' \<in> set (source_ext demo)
   \<and> is_directory sample_fs (parent_path ''nodir/out'') = Some False
   \<and> \<not> has_extension ''nodir/out''
   \<and> fst (parse_B demo sample_fs [''prog'', ''source.txt'', ''nodir/out''] fresh_B) = Returned False
   \<and> cerr (snd (parse_B demo sample_fs [''prog'', ''source.txt'', ''nodir/out''] fresh_B)) =
       [''Error: Target directory does not exist nodir/out'']
   \<and> has_extension ''nodir/out.csv''
   \<and> fst (parse_B demo sample_fs [''prog'', ''source.txt'', ''nodir/out.csv''] fresh_B) = Returned False
   \<and> cerr (snd (parse_B demo sample_fs [''prog'', ''source.txt'', ''nodir/out.csv''] fresh_B)) =
       [''Error: Target file has unknown directory nodir/out.csv'']
   \<and> fst (check_A demo fresh_A) = None
   \<and> exists sample_fs ''source.txt'' = Some True
   \<and> getExtension ''source.txt'' \<in> set (source_ext demo)
   \<and> fst (parse_A demo sample_fs [''prog'', ''source.txt'', ''nodir/out''] fresh_A) = Returned False
   \<and> cerr (snd (parse_A demo sample_fs [''prog'', ''source.txt'', ''nodir/out''] fresh_A)) =
       [''Error: Target file has unknown directory nodir/out'']
   \<and> is_directory sample_fs (parent_path ''/locked/sub/out.csv'') = None
   \<and> fst (parse_B demo sample_fs [''prog'', ''source.txt'', ''/locked/sub/out.csv''] fresh_B)
       = Threw Filesystem_error
   \<and> fst (parse_A demo sample_fs [''prog'', ''source.txt'', ''/locked/sub/out.csv''] fresh_A)
       = Threw Filesystem_error"
proof -
  have h1: "passes_flags demo [''prog'', ''source.txt'', ''nodir/out'']"
    "filter is_file_token (drop 1 [''prog'', ''source.txt'', ''nodir/out'']) = [''source.txt'', ''nodir/out'']"
    "is_directory sample_fs ''source.txt'' = Some False"
    by code_simp+
  have h2: "passes_flags demo [''prog'', ''source.txt'', ''nodir/out.csv'']"
    "filter is_file_token (drop 1 [''prog'', ''source.txt'', ''nodir/out.csv'']) = [''source.txt'', ''nodir/out.csv'']"
    "is_directory sample_fs ''source.txt'' = Some False"
    by code_simp+
  have h3: "passes_flags demo [''prog'', ''source.txt'', ''/locked/sub/out.csv'']"
    "filter is_file_token (drop 1 [''prog'', ''source.txt'', ''/locked/sub/out.csv''])
       = [''source.txt'', ''/locked/sub/out.csv'']"
    "is_directory sample_fs ''source.txt'' = Some False"
    by code_simp+
  have e: "fst (check_B demo fresh_B) = None" "current_path sample_fs \<noteq> Some []"
    "anchor_B sample_fs ''source.txt'' = Some ''/home/source.txt''"
    "exists sample_fs ''/home/source.txt'' = Some True"
    "getExtension ''/home/source.txt'' \<in> set (source_ext demo)"
    "parent_path ''nodir/out'' = ''nodir''" "parent_path ''nodir/out.csv'' = ''nodir''"
    "parent_path ''/locked/sub/out.csv'' = ''/locked/sub''"
    "is_directory sample_fs ''nodir'' = Some False"
    "is_directory sample_fs ''/locked/sub'' = None"
    "\<not> has_extension ''nodir/out''" "has_extension ''nodir/out.csv''"
    "cerr fresh_B = []"
    "fst (check_A demo fresh_A) = None"
    "exists sample_fs ''source.txt'' = Some True"
    "getExtension ''source.txt'' \<in> set (source_ext demo)"
    "cerr fresh_A = []"
    by code_simp+
  from missing_target_directory [OF h1, of fresh_B "''/home/source.txt''"]
    missing_target_directory [OF h2, of fresh_B "''/home/source.txt''"]
    missing_target_directory [OF h1, of fresh_A "''/home/source.txt''"]
    missing_target_directory [OF h3, of fresh_B "''/home/source.txt''"]
    missing_target_directory [OF h3, of fresh_A "''/home/source.txt''"] h1 e
  show ?thesis
    by (simp add: Let_def)
qed

text \<open>
  C6 as stated fails in two ways.  In \<open>CmdArgs.h\<close>, for the token \<open>nodir/out\<close>, which has no
  extension and whose parent does not exist, the message is
  \<open>Target file has unknown directory\<close>.  And in both headers a target whose parent the file
  system refuses to answer about makes \<open>parse\<close> throw instead of failing with a message.
\<close>

theorem missing_target_directory_counterexample:
  "\<not> has_extension ''nodir/out''
   \<and> parent_path ''nodir/out'' = ''nodir''
   \<and> is_directory sample_fs ''nodir'' = Some False
   \<and> exists sample_fs ''nodir'' = Some False
   \<and> fst (parse_A demo sample_fs [''prog'', ''/home/source.txt'', ''nodir/out''] fresh_A) = Returned False
   \<and> cerr (snd (parse_A demo sample_fs [''prog'', ''/home/source.txt'', ''nodir/out''] fresh_A)) =
       [''Error: Target file has unknown directory nodir/out'']
   \<and> parent_path ''/locked/sub/out.csv'' = ''/locked/sub''
   \<and> is_directory sample_fs ''/locked/sub'' = None
   \<and> fst (parse_B demo sample_fs [''prog'', ''/home/source.txt'', ''/locked/sub/out.csv''] fresh_B)
       = Threw Filesystem_error
   \<and> cerr (snd (parse_B demo sample_fs [''prog'', ''/home/source.txt'', ''/locked/sub/out.csv''] fresh_B)) = []
   \<and> fst (parse_A demo sample_fs [''prog'', ''/home/source.txt'', ''/locked/sub/out.csv''] fresh_A)
       = Threw Filesystem_error
   \<and> cerr (snd (parse_A demo sample_fs [''prog'', ''/home/source.txt'', ''/locked/sub/out.csv''] fresh_A)) = []"
  by code_simp

text \<open>
  C7, as the code has it.  Take a call that reaches \<open>parseFiles\<close> with two positional
  tokens and a valid source file, the file system answering each query made.  In the later
  header, when the second token has no extension and its path (placed in the directory of
  the source if it has no directory part) is an existing directory, whose parent is one
  too, \<open>_target\<close> becomes that directory joined with the file name of the source, with the
  extension replaced by the first entry of \<open>target_ext\<close>; the call succeeds, publishing
  that target, exactly when it differs from the source up to case and its extension is
  listed.  \<open>CmdArgs.h\<close> has no target directories: whenever the parent of the second
  token's path is a directory, that path itself is \<open>_target\<close>, and is published unless it
  equals the source up to case.
\<close>

theorem target_directory:
  assumes "passes_flags cfg argv" and "filter is_file_token (drop 1 argv) = [tok, tok2]"
    and "is_directory fs tok = Some False"
  shows "(fst (check_B cfg s) = None \<and> anchor_B fs tok = Some src \<longrightarrow>
      (let dir = (if parent_path tok2 = [] then path_append (parent_path src) tok2 else tok2);
           tgt = replace_extension (path_append dir (filename src)) (hd (target_ext cfg))
       in exists fs src = Some True \<and> getExtension src \<in> set (source_ext cfg)
          \<and> \<not> has_extension tok2 \<and> is_directory fs dir = Some True
          \<and> is_directory fs (parent_path dir) = Some True \<longrightarrow>
          m_target (snd (parse_B cfg fs argv s)) = tgt
          \<and> (fst (parse_B cfg fs argv s) = Returned True \<longleftrightarrow>
                tolower src \<noteq> tolower tgt \<and> getExtension tgt \<in> set (target_ext cfg))
          \<and> (fst (parse_B cfg fs argv s) = Returned True \<longrightarrow>
                cmd_source (snd (parse_B cfg fs argv s)) = src
                \<and> cmd_target (snd (parse_B cfg fs argv s)) = tgt)))
   \<and> (fst (check_A cfg s) = None \<longrightarrow>
      (let src = tok;
           tgt = (if parent_path tok2 = [] then path_append (parent_path src) (filename tok2)
                  else tok2)
       in exists fs src = Some True \<and> getExtension src \<in> set (source_ext cfg)
          \<and> is_directory fs (parent_path tgt) = Some True \<longrightarrow>
          m_target (snd (parse_A cfg fs argv s)) = tgt
          \<and> (fst (parse_A cfg fs argv s) = Returned True \<longleftrightarrow> tolower src \<noteq> tolower tgt)
          \<and> (fst (parse_A cfg fs argv s) = Returned True \<longrightarrow>
                cmd_source (snd (parse_A cfg fs argv s)) = src
                \<and> cmd_target (snd (parse_A cfg fs argv s)) = tgt)))"
proof (rule conjI; rule impI)
  assume "fst (check_B cfg s) = None \<and> anchor_B fs tok = Some src"
  then have ck: "fst (check_B cfg s) = None" and an: "anchor_B fs tok = Some src"
    by simp_all
  define dir where "dir = (if parent_path tok2 = [] then path_append (parent_path src) tok2 else tok2)"
  define tgt where "tgt = replace_extension (path_append dir (filename src)) (hd (target_ext cfg))"
  from parse_B_reaches [OF ck assms(1), of fs] assms(2) obtain s1 where
    p: "parse_B cfg fs argv s = parseFiles_B cfg fs (tok # [tok2]) s1"
    by auto
  have len: "length [tok2] \<le> 1" by simp
  have "exists fs src = Some True \<and> getExtension src \<in> set (source_ext cfg)
          \<and> \<not> has_extension tok2 \<and> is_directory fs dir = Some True
          \<and> is_directory fs (parent_path dir) = Some True \<longrightarrow>
          m_target (snd (parse_B cfg fs argv s)) = tgt
          \<and> (fst (parse_B cfg fs argv s) = Returned True \<longleftrightarrow>
                tolower src \<noteq> tolower tgt \<and> getExtension tgt \<in> set (target_ext cfg))
          \<and> (fst (parse_B cfg fs argv s) = Returned True \<longrightarrow>
                cmd_source (snd (parse_B cfg fs argv s)) = src
                \<and> cmd_target (snd (parse_B cfg fs argv s)) = tgt)"
  proof (rule impI)
    assume a: "exists fs src = Some True \<and> getExtension src \<in> set (source_ext cfg)
          \<and> \<not> has_extension tok2 \<and> is_directory fs dir = Some True
          \<and> is_directory fs (parent_path dir) = Some True"
    then have d: "\<not> has_extension tok2" "is_directory fs dir = Some True"
      "parent_path dir = [] \<or> is_directory fs (parent_path dir) = Some True"
      by simp_all
    show "m_target (snd (parse_B cfg fs argv s)) = tgt
          \<and> (fst (parse_B cfg fs argv s) = Returned True \<longleftrightarrow>
                tolower src \<noteq> tolower tgt \<and> getExtension tgt \<in> set (target_ext cfg))
          \<and> (fst (parse_B cfg fs argv s) = Returned True \<longrightarrow>
                cmd_source (snd (parse_B cfg fs argv s)) = src
                \<and> cmd_target (snd (parse_B cfg fs argv s)) = tgt)"
      unfolding p parseFiles_B_file_mode [OF len assms(3) an]
        explicit_target_B_directory [OF dir_def d] defaultTargetExt_B [OF ck] tgt_def [symmetric]
      using a by (simp add: err_def)
  qed
  then show "let dir = (if parent_path tok2 = [] then path_append (parent_path src) tok2 else tok2);
           tgt = replace_extension (path_append dir (filename src)) (hd (target_ext cfg))
       in exists fs src = Some True \<and> getExtension src \<in> set (source_ext cfg)
          \<and> \<not> has_extension tok2 \<and> is_directory fs dir = Some True
          \<and> is_directory fs (parent_path dir) = Some True \<longrightarrow>
          m_target (snd (parse_B cfg fs argv s)) = tgt
          \<and> (fst (parse_B cfg fs argv s) = Returned True \<longleftrightarrow>
                tolower src \<noteq> tolower tgt \<and> getExtension tgt \<in> set (target_ext cfg))
          \<and> (fst (parse_B cfg fs argv s) = Returned True \<longrightarrow>
                cmd_source (snd (parse_B cfg fs argv s)) = src
                \<and> cmd_target (snd (parse_B cfg fs argv s)) = tgt)"
    unfolding Let_def dir_def tgt_def .
next
  assume ck: "fst (check_A cfg s) = None"
  from parse_A_reaches [OF ck assms(1), of fs] assms(2) obtain s1 where
    p: "parse_A cfg fs argv s = parseFiles_A cfg fs (tok # [tok2]) s1"
    by auto
  have len: "length [tok2] \<le> 1" by simp
  show "let src = tok;
           tgt = (if parent_path tok2 = [] then path_append (parent_path src) (filename tok2)
                  else tok2)
       in exists fs src = Some True \<and> getExtension src \<in> set (source_ext cfg)
          \<and> is_directory fs (parent_path tgt) = Some True \<longrightarrow>
          m_target (snd (parse_A cfg fs argv s)) = tgt
          \<and> (fst (parse_A cfg fs argv s) = Returned True \<longleftrightarrow> tolower src \<noteq> tolower tgt)
          \<and> (fst (parse_A cfg fs argv s) = Returned True \<longrightarrow>
                cmd_source (snd (parse_A cfg fs argv s)) = src
                \<and> cmd_target (snd (parse_A cfg fs argv s)) = tgt)"
    unfolding p parseFiles_A_file_mode [OF len assms(3)]
    by (simp add: err_def explicit_target_A_def Let_def)
qed

theorem target_directory_witness:
  "passes_flags demo [''prog'', ''source.txt'', ''out'']
   \<and> filter is_file_token (drop 1 [''prog'', ''source.txt'', ''out'']) = [''source.txt'', ''out'']
   \<and> is_directory sample_fs ''source.txt'' = Some False
   \<and> fst (check_B demo fresh_B) = None
   \<and> anchor_B sample_fs ''source.txt'' = Some ''/home/source.txt''
   \<and> exists sample_fs ''/home/source.txt'' = Some True
   \<and> getExtension ''/home/source.txt'' \<in> set (source_ext demo)
   \<and> \<not> has_extension ''out''
   \<and> path_append (parent_path ''/home/source.txt'') ''out'' = ''/home/out''
   \<and> is_directory sample_fs ''/home/out'' = Some True
   \<and> is_directory sample_fs (parent_path ''/home/out'') = Some True
   \<and> fst (parse_B demo sample_fs [''prog'', ''source.txt'', ''out''] fresh_B) = Returned True
   \<and> cmd_source (snd (parse_B demo sample_fs [''prog'', ''source.txt'', ''out''] fresh_B)) = ''/home/source.txt''
   \<and> cmd_target (snd (parse_B demo sample_fs [''prog'', ''source.txt'', ''out''] fresh_B)) = ''/home/out/source.csv''
   \<and> passes_flags demo [''prog'', ''/home/source.txt'', ''/home/out'']
   \<and> filter is_file_token (drop 1 [''prog'', ''/home/source.txt'', ''/home/out''])
       = [''/home/source.txt'', ''/home/out'']
   \<and> is_directory sample_fs ''/home/source.txt'' = Some False
   \<and> fst (check_A demo fresh_A) = None
   \<and> fst (parse_A demo sample_fs [''prog'', ''/home/source.txt'', ''/home/out''] fresh_A) = Returned True
   \<and> cmd_target (snd (parse_A demo sample_fs [''prog'', ''/home/source.txt'', ''/home/out''] fresh_A)) = ''/home/out''"
proof -
  have h: "passes_flags demo [''prog'', ''source.txt'', ''out'']"
    "filter is_file_token (drop 1 [''prog'', ''source.txt'', ''out'']) = [''source.txt'', ''out'']"
    "is_directory sample_fs ''source.txt'' = Some False"
    by code_simp+
  have e: "fst (check_B demo fresh_B) = None"
    "anchor_B sample_fs ''source.txt'' = Some ''/home/source.txt''"
    "parent_path ''out'' = []"
    "exists sample_fs ''/home/source.txt'' = Some True"
    "getExtension ''/home/source.txt'' \<in> set (source_ext demo)"
    "\<not> has_extension ''out''"
    "path_append (parent_path ''/home/source.txt'') ''out'' = ''/home/out''"
    "is_directory sample_fs ''/home/out'' = Some True"
    "is_directory sample_fs (parent_path ''/home/out'') = Some True"
    "replace_extension (path_append ''/home/out'' (filename ''/home/source.txt'')) (hd (target_ext demo))
       = ''/home/out/source.csv''"
    "tolower ''/home/source.txt'' \<noteq> tolower ''/home/out/source.csv''"
    "getExtension ''/home/out/source.csv'' \<in> set (target_ext demo)"
    by code_simp+
  have h': "passes_flags demo [''prog'', ''/home/source.txt'', ''/home/out'']"
    "filter is_file_token (drop 1 [''prog'', ''/home/source.txt'', ''/home/out''])
       = [''/home/source.txt'', ''/home/out'']"
    "is_directory sample_fs ''/home/source.txt'' = Some False"
    by code_simp+
  have e': "fst (check_A demo fresh_A) = None"
    "parent_path ''/home/out'' = ''/home''"
    "is_directory sample_fs ''/home'' = Some True"
    "tolower ''/home/source.txt'' \<noteq> tolower ''/home/out''"
    by code_simp+
  from target_directory [OF h, of fresh_B "''/home/source.txt''"]
    target_directory [OF h', of fresh_A "''/home/source.txt''"] h h' e e' show ?thesis
    by (simp add: Let_def)
qed

text \<open>
  C7 as stated fails in \<open>CmdArgs.h\<close>: given the existing directory \<open>/home/out\<close> as second
  token, it publishes \<open>/home/out\<close> as the target, not \<open>/home/out/source.csv\<close>.
\<close>

theorem target_directory_counterexample:
  "\<not> has_extension ''/home/out''
   \<and> is_directory sample_fs ''/home/out'' = Some True
   \<and> replace_extension (path_append ''/home/out'' (filename ''/home/source.txt''))
        (hd (target_ext demo)) = ''/home/out/source.csv''
   \<and> fst (parse_A demo sample_fs [''prog'', ''/home/source.txt'', ''/home/out''] fresh_A) = Returned True
   \<and> cmd_source (snd (parse_A demo sample_fs [''prog'', ''/home/source.txt'', ''/home/out''] fresh_A)) = ''/home/source.txt''
   \<and> cmd_target (snd (parse_A demo sample_fs [''prog'', ''/home/source.txt'', ''/home/out''] fresh_A)) = ''/home/out''"
  by code_simp

text \<open>
  C8, as the code has it.  Take a call that reaches \<open>parseFiles\<close> with one or two
  positional tokens, the first not an existing directory, and a valid source file.  Both
  headers compare source and target only after the target has passed the checks of its
  directory.  So the call fails with \<open>Source and target files are the same\<close> when the two
  strings are equal in lower case and the target is the default target, or an explicit
  second token whose resolved parent \<open>is_directory\<close> reports as a directory (in the later
  header, for a token without extension: the token's path and its parent are directories,
  and the target is the file composed inside it).  And no such call succeeds with a
  published source and target that are equal up to case.
\<close>

theorem identity_check:
  assumes "passes_flags cfg argv" and "filter is_file_token (drop 1 argv) = tok # rest"
    and "length rest \<le> 1" and "is_directory fs tok = Some False"
  shows "(fst (check_B cfg s) = None \<longrightarrow>
      (anchor_B fs tok = Some src \<and> exists fs src = Some True
        \<and> getExtension src \<in> set (source_ext cfg) \<longrightarrow>
         (rest = [] \<longrightarrow>
           (let tgt = replace_extension src (hd (target_ext cfg))
            in tolower src = tolower tgt \<longrightarrow>
              fst (parse_B cfg fs argv s) = Returned False
              \<and> cerr (snd (parse_B cfg fs argv s)) =
                  cerr s @ [''Error: Source and target files are the same'']))
         \<and> (rest = [tok2] \<and> has_extension tok2 \<longrightarrow>
           (let tgt = (if parent_path tok2 = [] then path_append (parent_path src) tok2 else tok2)
            in is_directory fs (parent_path tgt) = Some True \<and> tolower src = tolower tgt \<longrightarrow>
              fst (parse_B cfg fs argv s) = Returned False
              \<and> cerr (snd (parse_B cfg fs argv s)) =
                  cerr s @ [''Error: Source and target files are the same'']))
         \<and> (rest = [tok2] \<and> \<not> has_extension tok2 \<longrightarrow>
           (let dir = (if parent_path tok2 = [] then path_append (parent_path src) tok2 else tok2);
                tgt = replace_extension (path_append dir (filename src)) (hd (target_ext cfg))
            in is_directory fs dir = Some True \<and> is_directory fs (parent_path dir) = Some True
               \<and> tolower src = tolower tgt \<longrightarrow>
              fst (parse_B cfg fs argv s) = Returned False
              \<and> cerr (snd (parse_B cfg fs argv s)) =
                  cerr s @ [''Error: Source and target files are the same''])))
      \<and> (fst (parse_B cfg fs argv s) = Returned True \<longrightarrow>
          tolower (cmd_source (snd (parse_B cfg fs argv s)))
            \<noteq> tolower (cmd_target (snd (parse_B cfg fs argv s)))))
   \<and> (fst (check_A cfg s) = None \<longrightarrow>
      (exists fs tok = Some True \<and> getExtension tok \<in> set (source_ext cfg) \<longrightarrow>
         (rest = [] \<longrightarrow>
           (let tgt = replace_extension tok (hd (target_ext cfg))
            in tolower tok = tolower tgt \<longrightarrow>
              fst (parse_A cfg fs argv s) = Returned False
              \<and> cerr (snd (parse_A cfg fs argv s)) =
                  cerr s @ [''Error: Source and target files are the same'']))
         \<and> (rest = [tok2] \<longrightarrow>
           (let tgt = (if parent_path tok2 = [] then path_append (parent_path tok) (filename tok2)
                       else tok2)
            in is_directory fs (parent_path tgt) = Some True \<and> tolower tok = tolower tgt \<longrightarrow>
              fst (parse_A cfg fs argv s) = Returned False
              \<and> cerr (snd (parse_A cfg fs argv s)) =
                  cerr s @ [''Error: Source and target files are the same''])))
      \<and> (fst (parse_A cfg fs argv s) = Returned True \<longrightarrow>
          tolower (cmd_source (snd (parse_A cfg fs argv s)))
            \<noteq> tolower (cmd_target (snd (parse_A cfg fs argv s)))))"
proof (rule conjI; rule impI; rule conjI)
  assume ck: "fst (check_B cfg s) = None"
  from parse_B_reaches [OF ck assms(1), of fs] assms(2) obtain s1 where
    p: "parse_B cfg fs argv s = parseFiles_B cfg fs (tok # rest) s1" and s1: "cerr s1 = cerr s"
    by auto
  show "(fst (parse_B cfg fs argv s) = Returned True \<longrightarrow>
          tolower (cmd_source (snd (parse_B cfg fs argv s)))
            \<noteq> tolower (cmd_target (snd (parse_B cfg fs argv s))))"
    unfolding p using parseFiles_B_distinct [OF assms(3,4), of cfg s1] by simp
  show "anchor_B fs tok = Some src \<and> exists fs src = Some True
        \<and> getExtension src \<in> set (source_ext cfg) \<longrightarrow>
         (rest = [] \<longrightarrow>
           (let tgt = replace_extension src (hd (target_ext cfg))
            in tolower src = tolower tgt \<longrightarrow>
              fst (parse_B cfg fs argv s) = Returned False
              \<and> cerr (snd (parse_B cfg fs argv s)) =
                  cerr s @ [''Error: Source and target files are the same'']))
         \<and> (rest = [tok2] \<and> has_extension tok2 \<longrightarrow>
           (let tgt = (if parent_path tok2 = [] then path_append (parent_path src) tok2 else tok2)
            in is_directory fs (parent_path tgt) = Some True \<and> tolower src = tolower tgt \<longrightarrow>
              fst (parse_B cfg fs argv s) = Returned False
              \<and> cerr (snd (parse_B cfg fs argv s)) =
                  cerr s @ [''Error: Source and target files are the same'']))
         \<and> (rest = [tok2] \<and> \<not> has_extension tok2 \<longrightarrow>
           (let dir = (if parent_path tok2 = [] then path_append (parent_path src) tok2 else tok2);
                tgt = replace_extension (path_append dir (filename src)) (hd (target_ext cfg))
            in is_directory fs dir = Some True \<and> is_directory fs (parent_path dir) = Some True
               \<and> tolower src = tolower tgt \<longrightarrow>
              fst (parse_B cfg fs argv s) = Returned False
              \<and> cerr (snd (parse_B cfg fs argv s)) =
                  cerr s @ [''Error: Source and target files are the same'']))"
  proof (rule impI)
    assume "anchor_B fs tok = Some src \<and> exists fs src = Some True
        \<and> getExtension src \<in> set (source_ext cfg)"
    then have an: "anchor_B fs tok = Some src" and ex: "exists fs src = Some True"
      and ext: "getExtension src \<in> set (source_ext cfg)"
      by simp_all
    note same = parseFiles_B_same [OF assms(3,4) an ex ext, of _ s1]
    have 1: "(rest = [] \<longrightarrow>
           (let tgt = replace_extension src (hd (target_ext cfg))
            in tolower src = tolower tgt \<longrightarrow>
              fst (parse_B cfg fs argv s) = Returned False
              \<and> cerr (snd (parse_B cfg fs argv s)) =
                  cerr s @ [''Error: Source and target files are the same'']))"
    proof (rule impI)
      assume r: "rest = []"
      show "let tgt = replace_extension src (hd (target_ext cfg))
            in tolower src = tolower tgt \<longrightarrow>
              fst (parse_B cfg fs argv s) = Returned False
              \<and> cerr (snd (parse_B cfg fs argv s)) =
                  cerr s @ [''Error: Source and target files are the same'']"
        unfolding Let_def p
        using same [of "replace_extension src (hd (target_ext cfg))"] r
        by (simp add: defaultTargetExt_B [OF ck] err_def s1)
    qed
    have 2: "(rest = [tok2] \<and> has_extension tok2 \<longrightarrow>
           (let tgt = (if parent_path tok2 = [] then path_append (parent_path src) tok2 else tok2)
            in is_directory fs (parent_path tgt) = Some True \<and> tolower src = tolower tgt \<longrightarrow>
              fst (parse_B cfg fs argv s) = Returned False
              \<and> cerr (snd (parse_B cfg fs argv s)) =
                  cerr s @ [''Error: Source and target files are the same'']))"
    proof (rule impI)
      assume "rest = [tok2] \<and> has_extension tok2"
      then have r: "rest = [tok2]" and he: "has_extension tok2" by simp_all
      define tgt where "tgt = (if parent_path tok2 = [] then path_append (parent_path src) tok2 else tok2)"
      have "is_directory fs (parent_path tgt) = Some True \<and> tolower src = tolower tgt \<longrightarrow>
              fst (parse_B cfg fs argv s) = Returned False
              \<and> cerr (snd (parse_B cfg fs argv s)) =
                  cerr s @ [''Error: Source and target files are the same'']"
      proof (rule impI)
        assume a: "is_directory fs (parent_path tgt) = Some True \<and> tolower src = tolower tgt"
        then have "explicit_target_B cfg fs src [tok, tok2] = (Passed, tgt)"
          using explicit_target_B_file [OF tgt_def he] by simp
        with a r have "parseFiles_B cfg fs (tok # rest) s1 =
            err ''Source and target files are the same'' (s1\<lparr>m_source := src, m_target := tgt\<rparr>)"
          using same [of tgt] by simp
        then show "fst (parse_B cfg fs argv s) = Returned False
              \<and> cerr (snd (parse_B cfg fs argv s)) =
                  cerr s @ [''Error: Source and target files are the same'']"
          unfolding p by (simp add: err_def s1)
      qed
      then show "let tgt = (if parent_path tok2 = [] then path_append (parent_path src) tok2 else tok2)
            in is_directory fs (parent_path tgt) = Some True \<and> tolower src = tolower tgt \<longrightarrow>
              fst (parse_B cfg fs argv s) = Returned False
              \<and> cerr (snd (parse_B cfg fs argv s)) =
                  cerr s @ [''Error: Source and target files are the same'']"
        unfolding Let_def tgt_def .
    qed
    have 3: "(rest = [tok2] \<and> \<not> has_extension tok2 \<longrightarrow>
           (let dir = (if parent_path tok2 = [] then path_append (parent_path src) tok2 else tok2);
                tgt = replace_extension (path_append dir (filename src)) (hd (target_ext cfg))
            in is_directory fs dir = Some True \<and> is_directory fs (parent_path dir) = Some True
               \<and> tolower src = tolower tgt \<longrightarrow>
              fst (parse_B cfg fs argv s) = Returned False
              \<and> cerr (snd (parse_B cfg fs argv s)) =
                  cerr s @ [''Error: Source and target files are the same'']))"
    proof (rule impI)
      assume "rest = [tok2] \<and> \<not> has_extension tok2"
      then have r: "rest = [tok2]" and he: "\<not> has_extension tok2" by simp_all
      define dir where "dir = (if parent_path tok2 = [] then path_append (parent_path src) tok2 else tok2)"
      define tgt where "tgt = replace_extension (path_append dir (filename src)) (hd (target_ext cfg))"
      have "is_directory fs dir = Some True \<and> is_directory fs (parent_path dir) = Some True
               \<and> tolower src = tolower tgt \<longrightarrow>
              fst (parse_B cfg fs argv s) = Returned False
              \<and> cerr (snd (parse_B cfg fs argv s)) =
                  cerr s @ [''Error: Source and target files are the same'']"
      proof (rule impI)
        assume a: "is_directory fs dir = Some True \<and> is_directory fs (parent_path dir) = Some True
               \<and> tolower src = tolower tgt"
        then have "explicit_target_B cfg fs src [tok, tok2] = (Passed, tgt)"
          using explicit_target_B_directory [OF dir_def he]
          by (simp add: tgt_def defaultTargetExt_B [OF ck])
        with a r have "parseFiles_B cfg fs (tok # rest) s1 =
            err ''Source and target files are the same'' (s1\<lparr>m_source := src, m_target := tgt\<rparr>)"
          using same [of tgt] by simp
        then show "fst (parse_B cfg fs argv s) = Returned False
              \<and> cerr (snd (parse_B cfg fs argv s)) =
                  cerr s @ [''Error: Source and target files are the same'']"
          unfolding p by (simp add: err_def s1)
      qed
      then show "let dir = (if parent_path tok2 = [] then path_append (parent_path src) tok2 else tok2);
                tgt = replace_extension (path_append dir (filename src)) (hd (target_ext cfg))
            in is_directory fs dir = Some True \<and> is_directory fs (parent_path dir) = Some True
               \<and> tolower src = tolower tgt \<longrightarrow>
              fst (parse_B cfg fs argv s) = Returned False
              \<and> cerr (snd (parse_B cfg fs argv s)) =
                  cerr s @ [''Error: Source and target files are the same'']"
        unfolding Let_def dir_def tgt_def .
    qed
    from 1 2 3 show "(rest = [] \<longrightarrow>
           (let tgt = replace_extension src (hd (target_ext cfg))
            in tolower src = tolower tgt \<longrightarrow>
              fst (parse_B cfg fs argv s) = Returned False
              \<and> cerr (snd (parse_B cfg fs argv s)) =
                  cerr s @ [''Error: Source and target files are the same'']))
         \<and> (rest = [tok2] \<and> has_extension tok2 \<longrightarrow>
           (let tgt = (if parent_path tok2 = [] then path_append (parent_path src) tok2 else tok2)
            in is_directory fs (parent_path tgt) = Some True \<and> tolower src = tolower tgt \<longrightarrow>
              fst (parse_B cfg fs argv s) = Returned False
              \<and> cerr (snd (parse_B cfg fs argv s)) =
                  cerr s @ [''Error: Source and target files are the same'']))
         \<and> (rest = [tok2] \<and> \<not> has_extension tok2 \<longrightarrow>
           (let dir = (if parent_path tok2 = [] then path_append (parent_path src) tok2 else tok2);
                tgt = replace_extension (path_append dir (filename src)) (hd (target_ext cfg))
            in is_directory fs dir = Some True \<and> is_directory fs (parent_path dir) = Some True
               \<and> tolower src = tolower tgt \<longrightarrow>
              fst (parse_B cfg fs argv s) = Returned False
              \<and> cerr (snd (parse_B cfg fs argv s)) =
                  cerr s @ [''Error: Source and target files are the same'']))"
      by (intro conjI)
  qed
next
  assume ck: "fst (check_A cfg s) = None"
  from parse_A_reaches [OF ck assms(1), of fs] assms(2) obtain s1 where
    p: "parse_A cfg fs argv s = parseFiles_A cfg fs (tok # rest) s1" and s1: "cerr s1 = cerr s"
    by auto
  show "(fst (parse_A cfg fs argv s) = Returned True \<longrightarrow>
          tolower (cmd_source (snd (parse_A cfg fs argv s)))
            \<noteq> tolower (cmd_target (snd (parse_A cfg fs argv s))))"
    unfolding p using parseFiles_A_distinct [OF assms(3,4), of cfg s1] by simp
  show "exists fs tok = Some True \<and> getExtension tok \<in> set (source_ext cfg) \<longrightarrow>
         (rest = [] \<longrightarrow>
           (let tgt = replace_extension tok (hd (target_ext cfg))
            in tolower tok = tolower tgt \<longrightarrow>
              fst (parse_A cfg fs argv s) = Returned False
              \<and> cerr (snd (parse_A cfg fs argv s)) =
                  cerr s @ [''Error: Source and target files are the same'']))
         \<and> (rest = [tok2] \<longrightarrow>
           (let tgt = (if parent_path tok2 = [] then path_append (parent_path tok) (filename tok2)
                       else tok2)
            in is_directory fs (parent_path tgt) = Some True \<and> tolower tok = tolower tgt \<longrightarrow>
              fst (parse_A cfg fs argv s) = Returned False
              \<and> cerr (snd (parse_A cfg fs argv s)) =
                  cerr s @ [''Error: Source and target files are the same'']))"
  proof (rule impI)
    assume "exists fs tok = Some True \<and> getExtension tok \<in> set (source_ext cfg)"
    then have ex: "exists fs tok = Some True"
      and ext: "getExtension tok \<in> set (source_ext cfg)"
      by simp_all
    note same = parseFiles_A_same [OF assms(3,4) ex ext, of _ s1]
    have 1: "(rest = [] \<longrightarrow>
           (let tgt = replace_extension tok (hd (target_ext cfg))
            in tolower tok = tolower tgt \<longrightarrow>
              fst (parse_A cfg fs argv s) = Returned False
              \<and> cerr (snd (parse_A cfg fs argv s)) =
                  cerr s @ [''Error: Source and target files are the same'']))"
    proof (rule impI)
      assume r: "rest = []"
      show "let tgt = replace_extension tok (hd (target_ext cfg))
            in tolower tok = tolower tgt \<longrightarrow>
              fst (parse_A cfg fs argv s) = Returned False
              \<and> cerr (snd (parse_A cfg fs argv s)) =
                  cerr s @ [''Error: Source and target files are the same'']"
        unfolding Let_def p
        using same [of "replace_extension tok (hd (target_ext cfg))"] r
        by (simp add: defaultTargetExt_A [OF ck] err_def s1)
    qed
    have 2: "(rest = [tok2] \<longrightarrow>
           (let tgt = (if parent_path tok2 = [] then path_append (parent_path tok) (filename tok2)
                       else tok2)
            in is_directory fs (parent_path tgt) = Some True \<and> tolower tok = tolower tgt \<longrightarrow>
              fst (parse_A cfg fs argv s) = Returned False
              \<and> cerr (snd (parse_A cfg fs argv s)) =
                  cerr s @ [''Error: Source and target files are the same'']))"
    proof (rule impI)
      assume r: "rest = [tok2]"
      define tgt where "tgt = (if parent_path tok2 = [] then path_append (parent_path tok) (filename tok2)
                       else tok2)"
      have "is_directory fs (parent_path tgt) = Some True \<and> tolower tok = tolower tgt \<longrightarrow>
              fst (parse_A cfg fs argv s) = Returned False
              \<and> cerr (snd (parse_A cfg fs argv s)) =
                  cerr s @ [''Error: Source and target files are the same'']"
      proof (rule impI)
        assume a: "is_directory fs (parent_path tgt) = Some True \<and> tolower tok = tolower tgt"
        then have "explicit_target_A fs tok [tok, tok2] = (Passed, tgt)"
          unfolding explicit_target_A_eq [OF tgt_def] by simp
        with a r have "parseFiles_A cfg fs (tok # rest) s1 =
            err ''Source and target files are the same'' (s1\<lparr>m_source := tok, m_target := tgt\<rparr>)"
          using same [of tgt] by simp
        then show "fst (parse_A cfg fs argv s) = Returned False
              \<and> cerr (snd (parse_A cfg fs argv s)) =
                  cerr s @ [''Error: Source and target files are the same'']"
          unfolding p by (simp add: err_def s1)
      qed
      then show "let tgt = (if parent_path tok2 = [] then path_append (parent_path tok) (filename tok2)
                       else tok2)
            in is_directory fs (parent_path tgt) = Some True \<and> tolower tok = tolower tgt \<longrightarrow>
              fst (parse_A cfg fs argv s) = Returned False
              \<and> cerr (snd (parse_A cfg fs argv s)) =
                  cerr s @ [''Error: Source and target files are the same'']"
        unfolding Let_def tgt_def .
    qed
    from 1 2 show "(rest = [] \<longrightarrow>
           (let tgt = replace_extension tok (hd (target_ext cfg))
            in tolower tok = tolower tgt \<longrightarrow>
              fst (parse_A cfg fs argv s) = Returned False
              \<and> cerr (snd (parse_A cfg fs argv s)) =
                  cerr s @ [''Error: Source and target files are the same'']))
         \<and> (rest = [tok2] \<longrightarrow>
           (let tgt = (if parent_path tok2 = [] then path_append (parent_path tok) (filename tok2)
                       else tok2)
            in is_directory fs (parent_path tgt) = Some True \<and> tolower tok = tolower tgt \<longrightarrow>
              fst (parse_A cfg fs argv s) = Returned False
              \<and> cerr (snd (parse_A cfg fs argv s)) =
                  cerr s @ [''Error: Source and target files are the same'']))"
      by (intro conjI)
  qed
qed

theorem identity_check_witness:
  "passes_flags demo [''prog'', ''source.txt'', ''SOURCE.TXT'']
   \<and> filter is_file_token (drop 1 [''prog'', ''source.txt'', ''SOURCE.TXT'']) = [''source.txt'', ''SOURCE.TXT'']
   \<and> is_directory sample_fs ''source.txt'' = Some False
   \<and> fst (check_B demo fresh_B) = None \<and> fst (check_A demo fresh_A) = None
   \<and> anchor_B sample_fs ''source.txt'' = Some ''/home/source.txt''
   \<and> exists sample_fs ''/home/source.txt'' = Some True
   \<and> getExtension ''/home/source.txt'' \<in> set (source_ext demo)
   \<and> has_extension ''SOURCE.TXT''
   \<and> path_append (parent_path ''/home/source.txt'') ''SOURCE.TXT'' = ''/home/SOURCE.TXT''
   \<and> is_directory sample_fs (parent_path ''/home/SOURCE.TXT'') = Some True
   \<and> tolower ''/home/source.txt'' = tolower ''/home/SOURCE.TXT''
   \<and> fst (parse_B demo sample_fs [''prog'', ''source.txt'', ''SOURCE.TXT''] fresh_B) = Returned False
   \<and> cerr (snd (parse_B demo sample_fs [''prog'', ''source.txt'', ''SOURCE.TXT''] fresh_B))
       = [''Error: Source and target files are the same'']
   \<and> is_directory sample_fs ''/home/source.txt'' = Some False
   \<and> fst (parse_A demo sample_fs [''prog'', ''/home/source.txt'', ''/home/SOURCE.TXT''] fresh_A) = Returned False
   \<and> cerr (snd (parse_A demo sample_fs [''prog'', ''/home/source.txt'', ''/home/SOURCE.TXT''] fresh_A))
       = [''Error: Source and target files are the same'']
   \<and> is_directory sample_fs ''/home/b.csv'' = Some False
   \<and> exists sample_fs ''/home/b.csv'' = Some True
   \<and> replace_extension ''/home/b.csv'' (hd (target_ext demo)) = ''/home/b.csv''
   \<and> fst (parse_B demo sample_fs [''prog'', ''/home/b.csv''] fresh_B) = Returned False
   \<and> cerr (snd (parse_B demo sample_fs [''prog'', ''/home/b.csv''] fresh_B))
       = [''Error: Source and target files are the same'']
   \<and> \<not> has_extension ''/home''
   \<and> is_directory sample_fs ''/home'' = Some True
   \<and> is_directory sample_fs (parent_path ''/home'') = Some True
   \<and> replace_extension (path_append ''/home'' (filename ''/home/b.csv'')) (hd (target_ext demo))
       = ''/home/b.csv''
   \<and> fst (parse_B demo sample_fs [''prog'', ''/home/b.csv'', ''/home''] fresh_B) = Returned False
   \<and> cerr (snd (parse_B demo sample_fs [''prog'', ''/home/b.csv'', ''/home''] fresh_B))
       = [''Error: Source and target files are the same'']"
proof -
  have h1: "passes_flags demo [''prog'', ''source.txt'', ''SOURCE.TXT'']"
    "filter is_file_token (drop 1 [''prog'', ''source.txt'', ''SOURCE.TXT''])
       = [''source.txt'', ''SOURCE.TXT'']"
    "length [''SOURCE.TXT''] \<le> 1"
    "is_directory sample_fs ''source.txt'' = Some False"
    by code_simp+
  have h2: "passes_flags demo [''prog'', ''/home/source.txt'', ''/home/SOURCE.TXT'']"
    "filter is_file_token (drop 1 [''prog'', ''/home/source.txt'', ''/home/SOURCE.TXT''])
       = [''/home/source.txt'', ''/home/SOURCE.TXT'']"
    "length [''/home/SOURCE.TXT''] \<le> 1"
    "is_directory sample_fs ''/home/source.txt'' = Some False"
    by code_simp+
  have h3: "passes_flags demo [''prog'', ''/home/b.csv'']"
    "filter is_file_token (drop 1 [''prog'', ''/home/b.csv''])
       = [''/home/b.csv'']"
    "length ([] :: string list) \<le> 1"
    "is_directory sample_fs ''/home/b.csv'' = Some False"
    by code_simp+
  have h4: "passes_flags demo [''prog'', ''/home/b.csv'', ''/home'']"
    "filter is_file_token (drop 1 [''prog'', ''/home/b.csv'', ''/home''])
       = [''/home/b.csv'', ''/home'']"
    "length [''/home''] \<le> 1"
    "is_directory sample_fs ''/home/b.csv'' = Some False"
    by code_simp+
  have e: "fst (check_B demo fresh_B) = None" "fst (check_A demo fresh_A) = None"
    "anchor_B sample_fs ''source.txt'' = Some ''/home/source.txt''"
    "anchor_B sample_fs ''/home/b.csv'' = Some ''/home/b.csv''"
    "exists sample_fs ''/home/source.txt'' = Some True"
    "exists sample_fs ''/home/b.csv'' = Some True"
    "getExtension ''/home/source.txt'' \<in> set (source_ext demo)"
    "getExtension ''/home/b.csv'' \<in> set (source_ext demo)"
    "has_extension ''SOURCE.TXT''" "has_extension ''/home/SOURCE.TXT''"
    "\<not> has_extension ''/home''"
    "parent_path ''SOURCE.TXT'' = []" "parent_path ''/home/SOURCE.TXT'' = ''/home''"
    "parent_path ''/home'' = ''/''"
    "path_append (parent_path ''/home/source.txt'') ''SOURCE.TXT'' = ''/home/SOURCE.TXT''"
    "is_directory sample_fs ''/home'' = Some True"
    "is_directory sample_fs ''/'' = Some True"
    "tolower ''/home/source.txt'' = tolower ''/home/SOURCE.TXT''"
    "replace_extension ''/home/b.csv'' (hd (target_ext demo)) = ''/home/b.csv''"
    "replace_extension (path_append ''/home'' (filename ''/home/b.csv'')) (hd (target_ext demo))
       = ''/home/b.csv''"
    "cerr fresh_B = []" "cerr fresh_A = []"
    by code_simp+
  from identity_check [OF h1, of fresh_B "''/home/source.txt''" "''SOURCE.TXT''"]
    identity_check [OF h2, of fresh_A "''/home/source.txt''" "''/home/SOURCE.TXT''"]
    identity_check [OF h3, of fresh_B "''/home/b.csv''" "''/home''"]
    identity_check [OF h4, of fresh_B "''/home/b.csv''" "''/home''"]
    h1 h2 h3 h4 e
  show ?thesis
    by (simp add: Let_def)
qed

text \<open>
  C8 as stated fails where the target does not pass its directory check.  In \<open>CmdArgs.h\<close>
  a second token without a directory part, beside a source without one, gets the empty
  path as parent, which is no directory: for \<open>source.txt\<close> and \<open>SOURCE.TXT\<close>, and for
  \<open>source.txt\<close> given twice, the error is \<open>Target file has unknown directory\<close>.  In the
  later header the same happens for \<open>/home/source.txt\<close> and \<open>/HOME/source.txt\<close> when
  \<open>/HOME\<close> is no directory.
\<close>

theorem identity_check_counterexample:
  "is_directory sample_fs ''source.txt'' = Some False
   \<and> exists sample_fs ''source.txt'' = Some True
   \<and> getExtension ''source.txt'' \<in> set (source_ext demo)
   \<and> path_append (parent_path ''source.txt'') (filename ''SOURCE.TXT'') = ''SOURCE.TXT''
   \<and> tolower ''source.txt'' = tolower ''SOURCE.TXT''
   \<and> parent_path ''SOURCE.TXT'' = []
   \<and> is_directory sample_fs [] = Some False
   \<and> fst (parse_A demo sample_fs [''prog'', ''source.txt'', ''SOURCE.TXT''] fresh_A) = Returned False
   \<and> cerr (snd (parse_A demo sample_fs [''prog'', ''source.txt'', ''SOURCE.TXT''] fresh_A))
       = [''Error: Target file has unknown directory SOURCE.TXT'']
   \<and> fst (parse_A demo sample_fs [''prog'', ''source.txt'', ''source.txt''] fresh_A) = Returned False
   \<and> cerr (snd (parse_A demo sample_fs [''prog'', ''source.txt'', ''source.txt''] fresh_A))
       = [''Error: Target file has unknown directory source.txt'']
   \<and> is_directory sample_fs ''/home/source.txt'' = Some False
   \<and> exists sample_fs ''/home/source.txt'' = Some True
   \<and> tolower ''/home/source.txt'' = tolower ''/HOME/source.txt''
   \<and> is_directory sample_fs (parent_path ''/HOME/source.txt'') = Some False
   \<and> fst (parse_B demo sample_fs [''prog'', ''/home/source.txt'', ''/HOME/source.txt''] fresh_B) = Returned False
   \<and> cerr (snd (parse_B demo sample_fs [''prog'', ''/home/source.txt'', ''/HOME/source.txt''] fresh_B))
       = [''Error: Target file has unknown directory /HOME/source.txt'']"
  by code_simp

text \<open>
  C9.  In both headers \<open>parse\<close> leaves through the \<open>runtime_error\<close> of \<open>check\<close> exactly when
  an extension list is empty, \<open>help\<close> or \<open>version\<close> is missing from the registry, or the
  registry has fewer than three entries; \<open>CmdArgs.h\<close> throws as well when the two extension
  lists are equal.  The condition does not mention the arguments or the file system, and a
  call that throws it has written nothing to either stream and has not touched the parser's
  paths.  (The other exception a call can leave through is the \<open>filesystem_error\<close> of a
  refused file-system query, which \<open>parseFiles\<close> makes only after \<open>check\<close> has passed.)
\<close>

theorem configuration_check:
  "((\<exists>what. fst (parse_A cfg fs argv s) = Threw (Runtime_error what)) \<longleftrightarrow>
      (source_ext cfg = [] \<or> target_ext cfg = [] \<or> source_ext cfg = target_ext cfg
       \<or> Help \<notin> set (cmd_flags cfg) \<or> Version \<notin> set (cmd_flags cfg)
       \<or> length (cmd_flags cfg) < 3))
   \<and> ((\<exists>what. fst (parse_B cfg fs argv s) = Threw (Runtime_error what)) \<longleftrightarrow>
      (source_ext cfg = [] \<or> target_ext cfg = []
       \<or> Help \<notin> set (cmd_flags cfg) \<or> Version \<notin> set (cmd_flags cfg)
       \<or> length (cmd_flags cfg) < 3))
   \<and> (\<forall>what. fst (parse_A cfg fs argv s) = Threw (Runtime_error what) \<longrightarrow>
         cout (snd (parse_A cfg fs argv s)) = cout s \<and> cerr (snd (parse_A cfg fs argv s)) = cerr s
         \<and> m_source (snd (parse_A cfg fs argv s)) = m_source s
         \<and> m_target (snd (parse_A cfg fs argv s)) = m_target s)
   \<and> (\<forall>what. fst (parse_B cfg fs argv s) = Threw (Runtime_error what) \<longrightarrow>
         cout (snd (parse_B cfg fs argv s)) = cout s \<and> cerr (snd (parse_B cfg fs argv s)) = cerr s
         \<and> m_source (snd (parse_B cfg fs argv s)) = m_source s
         \<and> m_target (snd (parse_B cfg fs argv s)) = m_target s)"
proof -
  have A: "(\<exists>what. fst (parse_A cfg fs argv s) = Threw (Runtime_error what)) \<longleftrightarrow> fst (check_A cfg s) \<noteq> None"
  proof (cases rule: parse_A_cases [of cfg s fs argv])
    case (threw what s0)
    then show ?thesis by simp
  next
    case (flags s0 r s1)
    then show ?thesis by (auto dest: parseFlags_no_throw')
  next
    case (files s0 s1)
    then show ?thesis by (simp add: parseFiles_A_no_throw)
  qed
  have B: "(\<exists>what. fst (parse_B cfg fs argv s) = Threw (Runtime_error what)) \<longleftrightarrow> fst (check_B cfg s) \<noteq> None"
  proof (cases rule: parse_B_cases [of cfg s fs argv])
    case (threw what s0)
    then show ?thesis by simp
  next
    case (flags s0 r s1)
    then show ?thesis by (auto dest: parseFlags_no_throw')
  next
    case (files s0 s1)
    then show ?thesis by (simp add: parseFiles_B_no_throw)
  qed
  have A': "snd (parse_A cfg fs argv s) = snd (check_A cfg s)"
    if "fst (parse_A cfg fs argv s) = Threw (Runtime_error what)" for what
  proof (cases rule: parse_A_cases [of cfg s fs argv])
    case (threw what s0)
    then show ?thesis by simp
  next
    case (flags s0 r s1)
    then show ?thesis using that by (auto dest: parseFlags_no_throw')
  next
    case (files s0 s1)
    then show ?thesis using that by (simp add: parseFiles_A_no_throw)
  qed
  have B': "snd (parse_B cfg fs argv s) = snd (check_B cfg s)"
    if "fst (parse_B cfg fs argv s) = Threw (Runtime_error what)" for what
  proof (cases rule: parse_B_cases [of cfg s fs argv])
    case (threw what s0)
    then show ?thesis by simp
  next
    case (flags s0 r s1)
    then show ?thesis using that by (auto dest: parseFlags_no_throw')
  next
    case (files s0 s1)
    then show ?thesis using that by (simp add: parseFiles_B_no_throw)
  qed
  show ?thesis
    unfolding A B using check_A_None [of cfg s] check_B_None [of cfg s]
    by (auto simp: A' B' check_A_state check_B_state not_less)
qed

theorem configuration_check_witness:
  "length (cmd_flags (demo\<lparr>cmd_flags := [Help, Version]\<rparr>)) < 3
   \<and> (\<exists>what. fst (parse_A (demo\<lparr>cmd_flags := [Help, Version]\<rparr>) sample_fs [''prog'', ''source.txt''] fresh_A) = Threw (Runtime_error what))
   \<and> (\<exists>what. fst (parse_B (demo\<lparr>cmd_flags := [Help, Version]\<rparr>) sample_fs [''prog'', ''source.txt''] fresh_A) = Threw (Runtime_error what))
   \<and> \<not> (\<exists>what. fst (parse_B demo sample_fs [''prog'', ''source.txt''] fresh_A) = Threw (Runtime_error what))
   \<and> \<not> (\<exists>what. fst (parse_B demo sample_fs [''prog'', ''/locked/in.txt''] fresh_B) = Threw (Runtime_error what))
   \<and> fst (parse_B demo sample_fs [''prog'', ''/locked/in.txt''] fresh_B) = Threw Filesystem_error"
proof -
  have f: "fst (parse_B demo sample_fs [''prog'', ''/locked/in.txt''] fresh_B) = Threw Filesystem_error"
    by code_simp
  from f configuration_check [of "demo\<lparr>cmd_flags := [Help, Version]\<rparr>" sample_fs "[''prog'', ''source.txt'']" fresh_A]
    configuration_check [of demo sample_fs "[''prog'', ''source.txt'']" fresh_A]
  show ?thesis
    by (simp add: demo_def)
qed

text \<open>
  C10.  A call of \<open>parse\<close> that returns \<open>false\<close> leaves \<open>cmd::source\<close> and
  \<open>cmd::target\<close> empty, in both headers.
\<close>

theorem failure_publishes_nothing:
  "(fst (parse_A cfg fs argv s) = Returned False \<longrightarrow>
      cmd_source (snd (parse_A cfg fs argv s)) = [] \<and> cmd_target (snd (parse_A cfg fs argv s)) = [])
   \<and> (fst (parse_B cfg fs argv s) = Returned False \<longrightarrow>
      cmd_source (snd (parse_B cfg fs argv s)) = [] \<and> cmd_target (snd (parse_B cfg fs argv s)) = [])"
proof
  show "fst (parse_A cfg fs argv s) = Returned False \<longrightarrow>
      cmd_source (snd (parse_A cfg fs argv s)) = [] \<and> cmd_target (snd (parse_A cfg fs argv s)) = []"
  proof (cases rule: parse_A_cases [of cfg s fs argv])
    case (threw what s0)
    then show ?thesis by simp
  next
    case (flags s0 r s1)
    from flags(1) have "s0 = snd (check_A cfg s)" by simp
    then have "cmd_source s0 = [] \<and> cmd_target s0 = []" by (simp add: check_A_state)
    with flags show ?thesis by (auto dest: parseFlags_frame)
  next
    case (files s0 s1)
    from files(1) have "s0 = snd (check_A cfg s)" by simp
    then have "cmd_source s0 = [] \<and> cmd_target s0 = []" by (simp add: check_A_state)
    with files(2) have "cmd_source s1 = [] \<and> cmd_target s1 = []" by (auto dest: parseFlags_frame)
    with files(3) show ?thesis using parseFiles_A_failure [of cfg fs _ s1] by simp
  qed
  show "fst (parse_B cfg fs argv s) = Returned False \<longrightarrow>
      cmd_source (snd (parse_B cfg fs argv s)) = [] \<and> cmd_target (snd (parse_B cfg fs argv s)) = []"
  proof (cases rule: parse_B_cases [of cfg s fs argv])
    case (threw what s0)
    then show ?thesis by simp
  next
    case (flags s0 r s1)
    from flags(1) have "s0 = snd (check_B cfg s)" by simp
    then have "cmd_source s0 = [] \<and> cmd_target s0 = []" by (simp add: check_B_state)
    with flags show ?thesis by (auto dest: parseFlags_frame)
  next
    case (files s0 s1)
    from files(1) have "s0 = snd (check_B cfg s)" by simp
    then have "cmd_source s0 = [] \<and> cmd_target s0 = []" by (simp add: check_B_state)
    with files(2) have "cmd_source s1 = [] \<and> cmd_target s1 = []" by (auto dest: parseFlags_frame)
    with files(3) show ?thesis using parseFiles_B_failure [of cfg fs _ s1] by simp
  qed
qed

theorem failure_publishes_nothing_witness:
  "fst (parse_A demo sample_fs [''prog'', ''a.jpg''] (fresh_A\<lparr>cmd_source := ''old.txt'', cmd_target := ''old.csv''\<rparr>)) = Returned False
   \<and> cmd_source (snd (parse_A demo sample_fs [''prog'', ''a.jpg''] (fresh_A\<lparr>cmd_source := ''old.txt'', cmd_target := ''old.csv''\<rparr>))) = []
   \<and> cmd_target (snd (parse_A demo sample_fs [''prog'', ''a.jpg''] (fresh_A\<lparr>cmd_source := ''old.txt'', cmd_target := ''old.csv''\<rparr>))) = []
   \<and> fst (parse_B demo sample_fs [''prog'', ''a.jpg''] (fresh_B\<lparr>cmd_source := ''old.txt'', cmd_target := ''old.csv''\<rparr>)) = Returned False
   \<and> cmd_source (snd (parse_B demo sample_fs [''prog'', ''a.jpg''] (fresh_B\<lparr>cmd_source := ''old.txt'', cmd_target := ''old.csv''\<rparr>))) = []
   \<and> cmd_target (snd (parse_B demo sample_fs [''prog'', ''a.jpg''] (fresh_B\<lparr>cmd_source := ''old.txt'', cmd_target := ''old.csv''\<rparr>))) = []"
proof -
  have a: "fst (parse_A demo sample_fs [''prog'', ''a.jpg''] (fresh_A\<lparr>cmd_source := ''old.txt'', cmd_target := ''old.csv''\<rparr>)) = Returned False"
    by code_simp
  have b: "fst (parse_B demo sample_fs [''prog'', ''a.jpg''] (fresh_B\<lparr>cmd_source := ''old.txt'', cmd_target := ''old.csv''\<rparr>)) = Returned False"
    by code_simp
  from a b
    failure_publishes_nothing [of demo sample_fs "[''prog'', ''a.jpg'']" "fresh_A\<lparr>cmd_source := ''old.txt'', cmd_target := ''old.csv''\<rparr>"]
    failure_publishes_nothing [of demo sample_fs "[''prog'', ''a.jpg'']" "fresh_B\<lparr>cmd_source := ''old.txt'', cmd_target := ''old.csv''\<rparr>"]
  show ?thesis by blast
qed

end
